theory Spec2Isabelle
  imports Complex_Main
begin

section \<open>Vectorized card tables of pyNastran (dev/bdf\_vectorized3)\<close>

text \<open>
  The card tables of \<^verbatim>\<open>pyNastran/dev/bdf_vectorized3/cards\<close> are embedded as records of
  parallel columns (one list per numpy array). Python exceptions are values of the type
  \<open>error\<close>; a function that can raise returns \<open>error + 'a\<close> with \<open>Inl\<close> for the exception.
  Row counts and indices are natural numbers, ids are integers, and float64 values are
  modelled as reals (the claims only compare them with zero or multiply small constants).
\<close>

datatype error = AssertionError | RuntimeError | KeyError int | IndexError | SyntaxError
  | TypeError | ValueError

text \<open>Sequencing of two steps that can raise: the second step runs on the value of the
  first, and an exception of the first step is the result.\<close>

definition ebind :: "error + 'a \<Rightarrow> ('a \<Rightarrow> error + 'b) \<Rightarrow> error + 'b" where
  "ebind m f = (case m of Inl e \<Rightarrow> Inl e | Inr x \<Rightarrow> f x)"

subsection \<open>Array helpers\<close>

text \<open>Python's \<^verbatim>\<open>xs[a:b]\<close> for non-negative bounds.\<close>

definition py_slice :: "nat \<Rightarrow> nat \<Rightarrow> 'a list \<Rightarrow> 'a list" where
  "py_slice a b xs = take (b - a) (drop a xs)"

text \<open>numpy's integer-array indexing \<^verbatim>\<open>xs[i]\<close>: one element per index, in the order of
  the index array; an index past the end raises \<^verbatim>\<open>IndexError\<close>.\<close>

fun take_rows :: "'a list \<Rightarrow> nat list \<Rightarrow> error + 'a list" where
  "take_rows xs [] = Inr []"
| "take_rows xs (k # ks) =
     (if k < length xs
      then ebind (take_rows xs ks) (\<lambda>r. Inr (xs ! k # r))
      else Inl IndexError)"

text \<open>\<^verbatim>\<open>np.unique\<close>: the distinct values in ascending order.\<close>

definition np_unique :: "int list \<Rightarrow> int list" where
  "np_unique xs = sort (remdups xs)"

text \<open>\<^verbatim>\<open>np.argsort\<close>: the row indices in ascending order of their value. Rows with equal
  values are kept in their original order here (numpy's default sort leaves that order open).\<close>

definition np_argsort :: "int list \<Rightarrow> nat list" where
  "np_argsort xs = map snd (sort_key fst (zip xs [0..<length xs]))"

subsection \<open>Ragged arrays: prefix-sum index and per-row slicing\<close>

fun idim_from :: "nat \<Rightarrow> nat list \<Rightarrow> (nat \<times> nat) list" where
  "idim_from off [] = []"
| "idim_from off (c # cs) = (off, off + c) # idim_from (off + c) cs"

text \<open>Modelled from the spec: \<^verbatim>\<open>make_idim\<close> of \<^verbatim>\<open>cards/base_card.py\<close> is not under src.
  The spec derives the per-row slice boundaries as a prefix-sum index,
  \<^verbatim>\<open>idim[i] = (offset_i, offset_i + count_i)\<close>, one pair per row; a row count that differs
  from the length of the count array is a programming error (an assertion).\<close>

definition make_idim :: "nat \<Rightarrow> nat list \<Rightarrow> error + (nat \<times> nat) list" where
  "make_idim n ndim = (if n = length ndim then Inr (idim_from 0 ndim) else Inl AssertionError)"

text \<open>Modelled from the spec: \<^verbatim>\<open>hslice_by_idim\<close> of \<^verbatim>\<open>cards/base_card.py\<close> is not under
  src. The spec re-slices the flat array per selected row, in the order of the index set, and
  concatenates the slices (it is not a flat index into the concatenated array).\<close>

fun hslice_by_idim :: "nat list \<Rightarrow> (nat \<times> nat) list \<Rightarrow> 'a list \<Rightarrow> error + 'a list" where
  "hslice_by_idim [] idim elements = Inr []"
| "hslice_by_idim (k # ks) idim elements =
     (if k < length idim
      then ebind (hslice_by_idim ks idim elements)
             (\<lambda>r. Inr (py_slice (fst (idim ! k)) (snd (idim ! k)) elements @ r))
      else Inl IndexError)"

subsection \<open>SET1 (cards/bdf\_sets.py)\<close>

text \<open>The columns of a SET1 table. \<open>set1_dims\<close> is the attribute \<^verbatim>\<open>dims\<close>, which
  \<^verbatim>\<open>__init__\<close> does not create (\<open>None\<close> until something assigns it).\<close>

record SET1 =
  set1_n :: nat
  set1_cards :: "(int \<times> bool \<times> int list) list"
  set1_set_id :: "int list"
  set1_is_skin :: "bool list"
  set1_num_ids :: "nat list"
  set1_ids :: "int list"
  set1_dims :: "int list option"

text \<open>\<^verbatim>\<open>SET1.__init__\<close> (and the base class's \<^verbatim>\<open>n = 0\<close>).\<close>

definition SET1_init :: SET1 where
  "SET1_init = \<lparr>set1_n = 0, set1_cards = [], set1_set_id = [], set1_is_skin = [],
                set1_num_ids = [], set1_ids = [], set1_dims = None\<rparr>"

text \<open>The property \<^verbatim>\<open>inid\<close>.\<close>

definition SET1_inid :: "SET1 \<Rightarrow> error + (nat \<times> nat) list" where
  "SET1_inid s = make_idim (set1_n s) (set1_num_ids s)"

text \<open>
  \<^verbatim>\<open>SET1.__apply_slice__\<close>. The class body defines the method twice; the second definition
  (the one that starts with the assertion) replaces the first, so it is the one embedded.
  \<^verbatim>\<open>sort\<close> calls it with the table itself as the target, so the objects live in a store
  (a map from references to tables) and every read of \<^verbatim>\<open>self\<close> sees the writes to
  \<^verbatim>\<open>set_card\<close> made before it when both are the same object.
\<close>

definition SET1_apply_slice :: "(nat \<Rightarrow> SET1) \<Rightarrow> nat \<Rightarrow> nat \<Rightarrow> nat list \<Rightarrow> error + (nat \<Rightarrow> SET1)" where
  "SET1_apply_slice h self set_card i =
     (if sum_list (set1_num_ids (h self)) \<noteq> length (set1_ids (h self)) then Inl AssertionError
      else
        let h1 = h(set_card := (h set_card)\<lparr>set1_n := length i\<rparr>) in
        ebind (take_rows (set1_set_id (h1 self)) i) (\<lambda>sid.
        let h2 = h1(set_card := (h1 set_card)\<lparr>set1_set_id := sid\<rparr>) in
        ebind (take_rows (set1_is_skin (h2 self)) i) (\<lambda>skin.
        let h3 = h2(set_card := (h2 set_card)\<lparr>set1_is_skin := skin\<rparr>) in
        ebind (SET1_inid (h3 self)) (\<lambda>inid.
        ebind (hslice_by_idim i inid (set1_ids (h3 self))) (\<lambda>d.
        let h4 = h3(set_card := (h3 set_card)\<lparr>set1_dims := Some d\<rparr>) in
        ebind (take_rows (set1_num_ids (h4 self)) i) (\<lambda>cnt.
        Inr (h4(set_card := (h4 set_card)\<lparr>set1_num_ids := cnt\<rparr>))))))))"

text \<open>\<^verbatim>\<open>SET1.sort\<close>: nothing to do when the id column is already strictly increasing,
  otherwise the table is sliced onto itself by the sorting permutation.\<close>

definition SET1_sort :: "(nat \<Rightarrow> SET1) \<Rightarrow> nat \<Rightarrow> error + (nat \<Rightarrow> SET1)" where
  "SET1_sort h self =
     (let usid = np_unique (set1_set_id (h self)) in
      if usid = set1_set_id (h self) then Inr h
      else SET1_apply_slice h self self (np_argsort (set1_set_id (h self))))"

text \<open>\<^verbatim>\<open>SET1.add\<close>.\<close>

definition SET1_add :: "SET1 \<Rightarrow> int \<Rightarrow> int list \<Rightarrow> bool \<Rightarrow> SET1" where
  "SET1_add s sid ids is_skin =
     s\<lparr>set1_cards := set1_cards s @ [(sid, is_skin, ids)], set1_n := set1_n s + 1\<rparr>"

text \<open>\<^verbatim>\<open>SET1._save\<close>: the columns are replaced and \<^verbatim>\<open>n\<close> is set from the id column.\<close>

definition SET1_save :: "SET1 \<Rightarrow> int list \<Rightarrow> bool list \<Rightarrow> nat list \<Rightarrow> int list \<Rightarrow> SET1" where
  "SET1_save s set_id is_skin num_ids ids =
     s\<lparr>set1_set_id := set_id, set1_is_skin := is_skin, set1_num_ids := num_ids,
       set1_ids := ids, set1_n := length set_id\<rparr>"

text \<open>The body of \<^verbatim>\<open>SET1.parse_cards\<close>: the columns are built from the staged cards,
  saved, and the table is sorted. The range expansion \<^verbatim>\<open>expand_thru\<close> (not under src) is a
  parameter.\<close>

definition SET1_parse_cards ::
  "(int list \<Rightarrow> int list) \<Rightarrow> (nat \<Rightarrow> SET1) \<Rightarrow> nat \<Rightarrow> error + (nat \<Rightarrow> SET1)" where
  "SET1_parse_cards expand_thru h self =
     (let cards = set1_cards (h self);
          set_id = map (\<lambda>(sid, is_skini, idsi). sid) cards;
          is_skin = map (\<lambda>(sid, is_skini, idsi). is_skini) cards;
          num_ids = map (\<lambda>(sid, is_skini, idsi). length (expand_thru idsi)) cards;
          all_ids = concat (map (\<lambda>(sid, is_skini, idsi). expand_thru idsi) cards);
          h1 = h(self := SET1_save (h self) set_id is_skin num_ids all_ids)
      in ebind (SET1_sort h1 self) (\<lambda>h2. Inr (h2(self := (h2 self)\<lparr>set1_cards := []\<rparr>))))"

text \<open>Modelled from the spec: \<^verbatim>\<open>slice_card_by_index\<close> of SET1 is inherited from the base
  class, which is not under src. The spec's \<^verbatim>\<open>slice_by_index\<close> returns a new table instance
  holding the selected rows; as in the SPC1 override that is under src, a fresh instance is
  created and handed to \<^verbatim>\<open>__apply_slice__\<close>.\<close>

definition SET1_slice_card_by_index :: "SET1 \<Rightarrow> nat list \<Rightarrow> error + SET1" where
  "SET1_slice_card_by_index s i =
     ebind (SET1_apply_slice ((\<lambda>_. SET1_init)(0 := s)) 0 1 i) (\<lambda>h. Inr (h 1))"

text \<open>What \<^verbatim>\<open>SET1.write_file\<close> reads for each row: the set id, the skin flag and the slice
  \<^verbatim>\<open>ids[inid0:inid1]\<close> of the flat id array (the text formatting of the fields is left out).\<close>

definition SET1_rows :: "SET1 \<Rightarrow> error + (int \<times> bool \<times> int list) list" where
  "SET1_rows s =
     (if length (set1_set_id s) = 0 then Inr []
      else ebind (SET1_inid s) (\<lambda>inid.
          Inr (map (\<lambda>(sid, skin, (inid0, inid1)). (sid, skin, py_slice inid0 inid1 (set1_ids s)))
                 (zip (set1_set_id s) (zip (set1_is_skin s) inid)))))"

subsection \<open>Dictionaries\<close>

text \<open>A Python dict keeps its keys in insertion order; it is an association list with
  distinct keys. \<open>dict_set\<close> is \<^verbatim>\<open>d[k] = v\<close> and \<open>dict_append\<close> is
  \<^verbatim>\<open>d[k].append(v)\<close> on a \<^verbatim>\<open>defaultdict(list)\<close>; lookup is \<open>map_of\<close>.\<close>

fun dict_set :: "'k \<Rightarrow> 'v \<Rightarrow> ('k \<times> 'v) list \<Rightarrow> ('k \<times> 'v) list" where
  "dict_set k v [] = [(k, v)]"
| "dict_set k v (p # ps) = (if fst p = k then (k, v) # ps else p # dict_set k v ps)"

definition dict_append :: "'k \<Rightarrow> 'v \<Rightarrow> ('k \<times> 'v list) list \<Rightarrow> ('k \<times> 'v list) list" where
  "dict_append k v d = dict_set k (case map_of d k of None \<Rightarrow> [v] | Some vs \<Rightarrow> vs @ [v]) d"

subsection \<open>Concrete (non-aggregate) tables seen by the resolver\<close>

text \<open>The reduction functions read three things of every registered concrete table: its
  \<^verbatim>\<open>type\<close> tag, its row count \<^verbatim>\<open>n\<close> and its primary id column; the remaining columns are
  kept row-wise in \<open>ct_data\<close>. The registry itself (\<^verbatim>\<open>model.load_cards\<close>,
  \<^verbatim>\<open>model.spc_cards\<close>) belongs to the model object, which is not under src, and is passed in
  as a list of tables.\<close>

record 'r ctable =
  ct_type :: string
  ct_n :: nat
  ct_id :: "int list"
  ct_data :: "'r list"

text \<open>\<^verbatim>\<open>slice_card_by_index\<close> of a table with fixed-arity columns (the pattern of
  \<^verbatim>\<open>DEFORM.__apply_slice__\<close> and \<^verbatim>\<open>SPC.__apply_slice__\<close>).\<close>

definition ct_slice_card_by_index :: "'r ctable \<Rightarrow> nat list \<Rightarrow> error + 'r ctable" where
  "ct_slice_card_by_index t i =
     ebind (take_rows (ct_id t) i) (\<lambda>ids.
     ebind (take_rows (ct_data t) i) (\<lambda>rows.
     Inr (t\<lparr>ct_n := length i, ct_id := ids, ct_data := rows\<rparr>)))"

text \<open>\<^verbatim>\<open>Load.slice_card_by_load_id\<close> for a single integer id.\<close>

definition slice_card_by_load_id :: "'r ctable \<Rightarrow> int \<Rightarrow> error + 'r ctable" where
  "slice_card_by_load_id t load_id =
     (if \<not> length (ct_id t) > 0 then Inl AssertionError
      else
        let index = filter (\<lambda>i. ct_id t ! i = load_id) [0..<length (ct_id t)] in
        if \<not> length index > 0 then Inl AssertionError
        else ct_slice_card_by_index t index)"

subsection \<open>LOAD (cards/loads/static\_loads.py)\<close>

record LOAD =
  load_n :: nat
  load_cards :: "(int \<times> real \<times> real list \<times> int list) list"
  load_load_id :: "int list"
  load_scale :: "real list"
  load_nloads :: "nat list"
  load_load_ids :: "int list"
  load_scale_factors :: "real list"

definition LOAD_init :: LOAD where
  "LOAD_init = \<lparr>load_n = 0, load_cards = [], load_load_id = [], load_scale = [],
                load_nloads = [], load_load_ids = [], load_scale_factors = []\<rparr>"

text \<open>\<^verbatim>\<open>LOAD.add\<close>.\<close>

definition LOAD_add :: "LOAD \<Rightarrow> int \<Rightarrow> real \<Rightarrow> real list \<Rightarrow> int list \<Rightarrow> error + LOAD" where
  "LOAD_add t sid scale scale_factors load_ids =
     (if length scale_factors \<noteq> length load_ids then Inl AssertionError
      else Inr (t\<lparr>load_cards := load_cards t @ [(sid, scale, scale_factors, load_ids)],
                  load_n := load_n t + 1\<rparr>))"

text \<open>\<^verbatim>\<open>LOAD._save\<close>.\<close>

definition LOAD_save ::
  "LOAD \<Rightarrow> int list \<Rightarrow> real list \<Rightarrow> nat list \<Rightarrow> int list \<Rightarrow> real list \<Rightarrow> LOAD" where
  "LOAD_save t load_id scale nloads load_ids scale_factors =
     (if length (load_load_id t) \<noteq> 0
      then t\<lparr>load_load_id := load_load_id t @ load_id,
             load_scale := load_scale t @ scale,
             load_nloads := load_nloads t @ nloads,
             load_load_ids := load_load_ids t @ load_ids,
             load_scale_factors := load_scale_factors t @ scale_factors\<rparr>
      else t\<lparr>load_load_id := load_id, load_scale := scale, load_nloads := nloads,
             load_load_ids := load_ids, load_scale_factors := scale_factors\<rparr>)"

text \<open>The body of \<^verbatim>\<open>LOAD.parse_cards\<close> (the decorator \<^verbatim>\<open>parse_cards_check\<close> is defined
  in the base class, which is not under src).\<close>

definition LOAD_parse_cards :: "LOAD \<Rightarrow> error + LOAD" where
  "LOAD_parse_cards t =
     (let cards = load_cards t in
      if \<not> length cards > 0 then Inl AssertionError
      else
        let load_id = map (\<lambda>(sid, scalei, scale_factors, load_ids). sid) cards;
            scale = map (\<lambda>(sid, scalei, scale_factors, load_ids). scalei) cards;
            nloads = map (\<lambda>(sid, scalei, scale_factors, load_ids). length scale_factors) cards;
            all_load_ids = concat (map (\<lambda>(sid, scalei, scale_factors, load_ids). load_ids) cards);
            all_scale_factors =
              concat (map (\<lambda>(sid, scalei, scale_factors, load_ids). scale_factors) cards)
        in Inr ((LOAD_save t load_id scale nloads all_load_ids all_scale_factors)
                  \<lparr>load_cards := []\<rparr>))"

text \<open>The property \<^verbatim>\<open>iload\<close>.\<close>

definition LOAD_iload :: "LOAD \<Rightarrow> error + (nat \<times> nat) list" where
  "LOAD_iload t = make_idim (load_n t) (load_nloads t)"

text \<open>\<^verbatim>\<open>LOAD.__apply_slice__\<close>, called with a target \<open>load\<close> that is another object than
  \<open>self\<close> (a fresh table made by \<^verbatim>\<open>slice_card_by_index\<close>).\<close>

definition LOAD_apply_slice :: "LOAD \<Rightarrow> LOAD \<Rightarrow> nat list \<Rightarrow> error + LOAD" where
  "LOAD_apply_slice self load i =
     ebind (take_rows (load_load_id self) i) (\<lambda>load_id.
     ebind (take_rows (load_scale self) i) (\<lambda>scale.
     ebind (LOAD_iload self) (\<lambda>iload.
     ebind (hslice_by_idim i iload (load_load_ids self)) (\<lambda>load_ids.
     ebind (hslice_by_idim i iload (load_scale_factors self)) (\<lambda>scale_factors.
     ebind (take_rows (load_nloads self) i) (\<lambda>nloads.
     Inr (load\<lparr>load_n := length i, load_load_id := load_id, load_scale := scale,
                load_load_ids := load_ids, load_scale_factors := scale_factors,
                load_nloads := nloads\<rparr>)))))))"

text \<open>The spec's ragged-array invariant for LOAD, on both flat arrays, and the condition
  that \<^verbatim>\<open>LOAD.add\<close> asserts on every staged card.\<close>

definition LOAD_ragged_ok :: "LOAD \<Rightarrow> bool" where
  "LOAD_ragged_ok t =
     (sum_list (load_nloads t) = length (load_load_ids t) \<and>
      sum_list (load_nloads t) = length (load_scale_factors t))"

definition LOAD_staged_ok :: "LOAD \<Rightarrow> bool" where
  "LOAD_staged_ok t =
     list_all (\<lambda>(sid, scale, scale_factors, load_ids). length scale_factors = length load_ids)
       (load_cards t)"

text \<open>What \<^verbatim>\<open>LOAD.write_file\<close> hands to the card printer for each row:
  \<^verbatim>\<open>(sid, scale, [(scale_factor, load_id), ...])\<close>.\<close>

definition LOAD_rows :: "LOAD \<Rightarrow> error + (int \<times> real \<times> (real \<times> int) list) list" where
  "LOAD_rows t =
     ebind (LOAD_iload t) (\<lambda>iload.
       Inr (map (\<lambda>(sid, scale, (iload0, iload1)).
                   (sid, scale, zip (py_slice iload0 iload1 (load_scale_factors t))
                                    (py_slice iload0 iload1 (load_load_ids t))))
              (zip (load_load_id t) (zip (load_scale t) iload))))"

text \<open>\<^verbatim>\<open>LOAD.get_loads_by_load_id\<close>: the map from every concrete load id to the slices of
  the concrete tables that carry it. Aggregate tables (LOAD, LSEQ) and empty tables are
  skipped.\<close>

fun loads_of_table ::
  "'r ctable \<Rightarrow> int list \<Rightarrow> (int \<times> 'r ctable list) list \<Rightarrow> error + (int \<times> 'r ctable list) list" where
  "loads_of_table loadi [] d = Inr d"
| "loads_of_table loadi (uload_id # rest) d =
     ebind (slice_card_by_load_id loadi uload_id)
       (\<lambda>loadi2. loads_of_table loadi rest (dict_append uload_id loadi2 d))"

fun get_loads_by_load_id_from ::
  "'r ctable list \<Rightarrow> (int \<times> 'r ctable list) list \<Rightarrow> error + (int \<times> 'r ctable list) list" where
  "get_loads_by_load_id_from [] d = Inr d"
| "get_loads_by_load_id_from (loadi # rest) d =
     (if ct_type loadi = ''LOAD'' \<or> ct_type loadi = ''LSEQ'' then get_loads_by_load_id_from rest d
      else if ct_n loadi = 0 then get_loads_by_load_id_from rest d
      else ebind (loads_of_table loadi (np_unique (ct_id loadi)) d)
             (\<lambda>d'. get_loads_by_load_id_from rest d'))"

definition get_loads_by_load_id :: "'r ctable list \<Rightarrow> error + (int \<times> 'r ctable list) list" where
  "get_loads_by_load_id model_load_cards = get_loads_by_load_id_from model_load_cards []"

text \<open>
  \<^verbatim>\<open>get_reduced_loads\<close>. The inner loop over the members of one aggregate row, the outer loop
  over the rows, and the final loop over the concrete-load map are three recursive functions.
  The calls of the logger do not change the control flow and are left out; the \<^verbatim>\<open>print\<close>
  of the zero-scale branch too. As in the source, the caller's \<open>stop_on_failure\<close> is
  overwritten with \<open>True\<close> before it is read, and the global scale of a row is taken from
  \<^verbatim>\<open>load.scale_factors\<close> in the \<^verbatim>\<open>zip\<close> of the outer loop.
\<close>

fun reduce_members ::
  "(int \<times> 'r ctable list) list \<Rightarrow> (int \<times> (real \<times> 'r ctable list) list) list \<Rightarrow> bool \<Rightarrow> bool \<Rightarrow>
   (real \<times> int) list \<Rightarrow> (real \<times> 'r ctable list) list \<Rightarrow> error + (real \<times> 'r ctable list) list" where
  "reduce_members loads_by_load_id reduced_loads filter_zero stop [] reduced_loadsi =
     Inr reduced_loadsi"
| "reduce_members loads_by_load_id reduced_loads filter_zero stop
     ((scale_factor, load_id) # rest) reduced_loadsi =
     (if scale_factor = 0 \<and> filter_zero
      then reduce_members loads_by_load_id reduced_loads filter_zero stop rest reduced_loadsi
      else
        case map_of loads_by_load_id load_id of
          Some loads_found \<Rightarrow>
            if length loads_found = 0 \<and> stop then Inl RuntimeError
            else reduce_members loads_by_load_id reduced_loads filter_zero stop rest
                   (reduced_loadsi @ [(scale_factor, loads_found)])
        | None \<Rightarrow>
            if map_of reduced_loads load_id \<noteq> None
            then reduce_members loads_by_load_id reduced_loads filter_zero stop rest reduced_loadsi
            else reduce_members loads_by_load_id reduced_loads filter_zero stop rest reduced_loadsi)"

fun reduce_rows ::
  "(int \<times> 'r ctable list) list \<Rightarrow> bool \<Rightarrow> bool \<Rightarrow> real list \<Rightarrow> int list \<Rightarrow>
   (int \<times> real \<times> nat \<times> nat) list \<Rightarrow> (int \<times> (real \<times> 'r ctable list) list) list \<Rightarrow>
   error + (int \<times> (real \<times> 'r ctable list) list) list" where
  "reduce_rows loads_by_load_id filter_zero stop all_scale_factors all_load_ids [] reduced_loads =
     Inr reduced_loads"
| "reduce_rows loads_by_load_id filter_zero stop all_scale_factors all_load_ids
     ((sid, global_scale, (iload0, iload1)) # rest) reduced_loads =
     (if global_scale = 0 \<and> filter_zero
      then reduce_rows loads_by_load_id filter_zero stop all_scale_factors all_load_ids rest
             reduced_loads
      else
        let scale_factors = map (\<lambda>s. global_scale * s) (py_slice iload0 iload1 all_scale_factors);
            load_ids = py_slice iload0 iload1 all_load_ids
        in ebind (reduce_members loads_by_load_id reduced_loads filter_zero stop
                    (zip scale_factors load_ids) [])
             (\<lambda>reduced_loadsi.
               if length reduced_loadsi = 0
               then reduce_rows loads_by_load_id filter_zero stop all_scale_factors all_load_ids
                      rest reduced_loads
               else reduce_rows loads_by_load_id filter_zero stop all_scale_factors all_load_ids
                      rest (dict_set sid reduced_loadsi reduced_loads)))"

fun add_unreferenced ::
  "(int \<times> 'r ctable list) list \<Rightarrow> (int \<times> (real \<times> 'r ctable list) list) list \<Rightarrow>
   (int \<times> (real \<times> 'r ctable list) list) list" where
  "add_unreferenced [] reduced_loads = reduced_loads"
| "add_unreferenced ((load_id, loads) # rest) reduced_loads =
     (if map_of reduced_loads load_id = None
      then add_unreferenced rest (dict_set load_id [(1, loads)] reduced_loads)
      else add_unreferenced rest reduced_loads)"

definition get_reduced_loads ::
  "'r ctable list \<Rightarrow> LOAD \<Rightarrow> bool \<Rightarrow> bool \<Rightarrow> bool \<Rightarrow>
   error + (int \<times> (real \<times> 'r ctable list) list) list" where
  "get_reduced_loads model_load_cards load remove_missing_loads filter_zero_scale_factors stop_on_failure =
     (if load_n load = 0 then Inr []
      else
        let stop_on_failure = True in
        ebind (get_loads_by_load_id model_load_cards) (\<lambda>loads_by_load_id.
        ebind (LOAD_iload load) (\<lambda>iload.
        ebind (reduce_rows loads_by_load_id filter_zero_scale_factors stop_on_failure
                 (load_scale_factors load) (load_load_ids load)
                 (zip (load_load_id load) (zip (load_scale_factors load) iload)) [])
          (\<lambda>reduced_loads. Inr (add_unreferenced loads_by_load_id reduced_loads)))))"

subsection \<open>The field reader\<close>

text \<open>Modelled from the spec: the tokenized card (\<^verbatim>\<open>BDFCard\<close>) and the typed accessors of
  \<^verbatim>\<open>assign_type\<close> are not under src. The spec describes the card as an ordered field list,
  indexable by position (position 0 is the card name), with typed accessors: a field that is
  required but absent, or of the wrong type, is a fatal parse error; the or-blank variants
  resolve an absent or blank field to the given default.\<close>

datatype field = FInt int | FFloat real | FStr string | FBlank

definition card_field :: "field list \<Rightarrow> nat \<Rightarrow> field" where
  "card_field bdfcard i = (if i < length bdfcard then bdfcard ! i else FBlank)"


definition integer :: "field list \<Rightarrow> nat \<Rightarrow> error + int" where
  "integer bdfcard i = (case card_field bdfcard i of FInt v \<Rightarrow> Inr v | _ \<Rightarrow> Inl SyntaxError)"

definition double :: "field list \<Rightarrow> nat \<Rightarrow> error + real" where
  "double bdfcard i = (case card_field bdfcard i of FFloat v \<Rightarrow> Inr v | _ \<Rightarrow> Inl SyntaxError)"

text \<open>Python's truth value of a field, as in \<^verbatim>\<open>if card.field(4):\<close>.\<close>

definition truthy :: "field \<Rightarrow> bool" where
  "truthy f = (case f of FBlank \<Rightarrow> False | FInt v \<Rightarrow> v \<noteq> 0 | FFloat r \<Rightarrow> r \<noteq> 0
               | FStr str \<Rightarrow> str \<noteq> [])"


subsection \<open>DEFORM (cards/loads/static\_loads.py)\<close>

record DEFORM =
  deform_n :: nat
  deform_cards :: "(int \<times> int \<times> real) list"

definition DEFORM_init :: DEFORM where
  "DEFORM_init = \<lparr>deform_n = 0, deform_cards = []\<rparr>"

text \<open>\<^verbatim>\<open>DEFORM.add_card\<close>: up to three element/value pairs on one line.\<close>

definition DEFORM_add_card :: "DEFORM \<Rightarrow> field list \<Rightarrow> error + DEFORM" where
  "DEFORM_add_card t bdfcard =
     ebind (integer bdfcard 1) (\<lambda>sid.
     ebind (integer bdfcard 2) (\<lambda>eid.
     ebind (double bdfcard 3) (\<lambda>deformation.
     let t1 = t\<lparr>deform_cards := deform_cards t @ [(sid, eid, deformation)],
                 deform_n := deform_n t + 1\<rparr> in
     ebind (if truthy (card_field bdfcard 4)
            then ebind (integer bdfcard 4) (\<lambda>eid.
                 ebind (double bdfcard 5) (\<lambda>deformation.
                 Inr (t1\<lparr>deform_cards := deform_cards t1 @ [(sid, eid, deformation)],
                          deform_n := deform_n t1 + 1\<rparr>)))
            else Inr t1) (\<lambda>t2.
     if truthy (card_field bdfcard 6)
     then ebind (integer bdfcard 6) (\<lambda>eid.
          ebind (double bdfcard 7) (\<lambda>deformation.
          Inr (t2\<lparr>deform_cards := deform_cards t2 @ [(sid, eid, deformation)],
                   deform_n := deform_n t2 + 1\<rparr>)))
     else Inr t2))))"

subsection \<open>PLOTEL (cards/elements/plot.py)\<close>

record PLOTEL =
  plotel_n :: nat
  plotel_cards :: "(int \<times> int list) list"

definition PLOTEL_init :: PLOTEL where
  "PLOTEL_init = \<lparr>plotel_n = 0, plotel_cards = []\<rparr>"

text \<open>\<^verbatim>\<open>PLOTEL.add_card\<close>: up to two element/node-pair groups on one line. The last
  statement of the method is one more \<^verbatim>\<open>self.n += 1\<close>.\<close>

definition PLOTEL_add_card :: "PLOTEL \<Rightarrow> field list \<Rightarrow> error + PLOTEL" where
  "PLOTEL_add_card t bdfcard =
     ebind (integer bdfcard 1) (\<lambda>eid.
     ebind (integer bdfcard 2) (\<lambda>g1.
     ebind (integer bdfcard 3) (\<lambda>g2.
     let t1 = t\<lparr>plotel_cards := plotel_cards t @ [(eid, [g1, g2])],
                 plotel_n := plotel_n t + 1\<rparr> in
     ebind (if truthy (card_field bdfcard 5)
            then ebind (integer bdfcard 5) (\<lambda>eid.
                 ebind (integer bdfcard 6) (\<lambda>g1.
                 ebind (integer bdfcard 7) (\<lambda>g2.
                 let t2 = t1\<lparr>plotel_cards := plotel_cards t1 @ [(eid, [g1, g2])],
                              plotel_n := plotel_n t1 + 1\<rparr> in
                 if length bdfcard \<le> 8 then Inr t2 else Inl AssertionError)))
            else if length bdfcard \<le> 5 then Inr t1 else Inl AssertionError) (\<lambda>t3.
     Inr (t3\<lparr>plotel_n := plotel_n t3 + 1\<rparr>)))))"

subsection \<open>ADD, SPCADD and MPCADD (cards/constraints.py)\<close>

text \<open>SPCADD and MPCADD inherit their storage from ADD; \<^verbatim>\<open>spc_id\<close>/\<^verbatim>\<open>mpc_id\<close> are
  properties that read \<^verbatim>\<open>sid\<close>, and \<^verbatim>\<open>spc_ids\<close>/\<^verbatim>\<open>mpc_ids\<close> read \<^verbatim>\<open>sids\<close>.\<close>

record ADD =
  add_n :: nat
  add_cards :: "(int \<times> int list) list"
  add_sid :: "int list"
  add_sids :: "int list"
  add_nsids :: "nat list"

definition ADD_init :: ADD where
  "ADD_init = \<lparr>add_n = 0, add_cards = [], add_sid = [], add_sids = [], add_nsids = []\<rparr>"



text \<open>\<^verbatim>\<open>ADD._save\<close>. When the table already holds rows, the source stacks the new
  \<^verbatim>\<open>sids\<close> (not the new \<^verbatim>\<open>sid\<close>) under the old \<^verbatim>\<open>sid\<close> column.\<close>

definition ADD_save :: "ADD \<Rightarrow> int list \<Rightarrow> int list \<Rightarrow> nat list \<Rightarrow> error + ADD" where
  "ADD_save t sid sids nsids =
     (let (sid', sids', nsids') =
            (if length (add_sid t) \<noteq> 0
             then (add_sid t @ sids, add_sids t @ sids, add_nsids t @ nsids)
             else (sid, sids, nsids));
          nsid = length sid';
          t' = t\<lparr>add_sid := sid', add_sids := sids', add_nsids := nsids'\<rparr>
      in if nsids' = [] then Inl ValueError
         else if \<not> Min (set nsids') > 0 then Inl AssertionError
         else Inr (t'\<lparr>add_n := nsid\<rparr>))"


text \<open>The property \<^verbatim>\<open>idim\<close>.\<close>

definition ADD_idim :: "ADD \<Rightarrow> error + (nat \<times> nat) list" where
  "ADD_idim t = make_idim (add_n t) (add_nsids t)"



text \<open>\<^verbatim>\<open>SPCADD.get_spcs_by_spc_id\<close>: the map from every concrete constraint id to the slices
  of the concrete tables that carry it. It is returned as a plain dict.\<close>

fun spcs_of_table ::
  "'r ctable \<Rightarrow> int list \<Rightarrow> (int \<times> 'r ctable list) list \<Rightarrow> error + (int \<times> 'r ctable list) list" where
  "spcs_of_table spc [] d = Inr d"
| "spcs_of_table spc (uspc_id # rest) d =
     (let i = filter (\<lambda>k. ct_id spc ! k = uspc_id) [0..<length (ct_id spc)] in
      if length i = 0 then spcs_of_table spc rest d
      else ebind (ct_slice_card_by_index spc i)
             (\<lambda>spci. spcs_of_table spc rest (dict_append uspc_id spci d)))"

fun get_spcs_by_spc_id_from ::
  "'r ctable list \<Rightarrow> (int \<times> 'r ctable list) list \<Rightarrow> error + (int \<times> 'r ctable list) list" where
  "get_spcs_by_spc_id_from [] d = Inr d"
| "get_spcs_by_spc_id_from (spc # rest) d =
     (if ct_type spc = ''SPCADD'' \<or> ct_type spc = ''SPCOFF''
      then get_spcs_by_spc_id_from rest d
      else ebind (spcs_of_table spc (np_unique (ct_id spc)) d)
             (\<lambda>d'. get_spcs_by_spc_id_from rest d'))"

definition get_spcs_by_spc_id :: "'r ctable list \<Rightarrow> error + (int \<times> 'r ctable list) list" where
  "get_spcs_by_spc_id model_spc_cards = get_spcs_by_spc_id_from model_spc_cards []"

text \<open>\<^verbatim>\<open>SPCADD.get_reduced_spcs\<close>. The lookup \<^verbatim>\<open>spc_by_spc_id[spc_idi]\<close> on the plain dict
  raises \<^verbatim>\<open>KeyError\<close> for an id that no concrete table carries. As in the source, the
  caller's \<open>stop_on_failure\<close> is overwritten with \<open>True\<close> before it is read.\<close>

fun reduce_spc_members ::
  "(int \<times> 'r ctable list) list \<Rightarrow> bool \<Rightarrow> int list \<Rightarrow> 'r ctable list list \<Rightarrow>
   error + 'r ctable list list" where
  "reduce_spc_members spc_by_spc_id stop [] reduced_spcsi = Inr reduced_spcsi"
| "reduce_spc_members spc_by_spc_id stop (spc_idi # rest) reduced_spcsi =
     (case map_of spc_by_spc_id spc_idi of
        None \<Rightarrow> Inl (KeyError spc_idi)
      | Some spcs_found \<Rightarrow>
          if length spcs_found = 0 \<and> stop then Inl RuntimeError
          else reduce_spc_members spc_by_spc_id stop rest (reduced_spcsi @ [spcs_found]))"

fun reduce_spc_rows ::
  "(int \<times> 'r ctable list) list \<Rightarrow> bool \<Rightarrow> int list \<Rightarrow> (int \<times> nat \<times> nat) list \<Rightarrow>
   (int \<times> 'r ctable list list) list \<Rightarrow> error + (int \<times> 'r ctable list list) list" where
  "reduce_spc_rows spc_by_spc_id stop all_spc_ids [] reduced_spcs = Inr reduced_spcs"
| "reduce_spc_rows spc_by_spc_id stop all_spc_ids ((sid, (idim0, idim1)) # rest) reduced_spcs =
     ebind (reduce_spc_members spc_by_spc_id stop (py_slice idim0 idim1 all_spc_ids) [])
       (\<lambda>reduced_spcsi.
          reduce_spc_rows spc_by_spc_id stop all_spc_ids rest
            (dict_set sid reduced_spcsi reduced_spcs))"

definition get_reduced_spcs ::
  "'r ctable list \<Rightarrow> ADD \<Rightarrow> bool \<Rightarrow> error + (int \<times> 'r ctable list list) list" where
  "get_reduced_spcs model_spc_cards self stop_on_failure =
     (let stop_on_failure = True in
      ebind (get_spcs_by_spc_id model_spc_cards) (\<lambda>spc_by_spc_id.
      ebind (ADD_idim self) (\<lambda>idim.
      reduce_spc_rows spc_by_spc_id stop_on_failure (add_sids self)
        (zip (add_sid self) idim) [])))"

text \<open>\<^verbatim>\<open>ndarray.max()\<close>; the maximum of an empty array raises \<^verbatim>\<open>ValueError\<close>.\<close>

definition np_max :: "int list \<Rightarrow> error + int" where
  "np_max xs = (case xs of [] \<Rightarrow> Inl ValueError | x # rest \<Rightarrow> Inr (fold max rest x))"

text \<open>The property \<^verbatim>\<open>MPCADD.is_small_field\<close>.\<close>

definition MPCADD_is_small_field :: "ADD \<Rightarrow> error + bool" where
  "MPCADD_is_small_field t =
     ebind (np_max (add_sid t)) (\<lambda>m1.
     ebind (np_max (add_sids t)) (\<lambda>m2.
     Inr (max m1 m2 < 99999999)))"

text \<open>\<^verbatim>\<open>MPCADD.write_file\<close>; \<open>fsize\<close> is its argument \<^verbatim>\<open>size\<close>. The result lists, for every line written, the card printer
  that renders it (\<^verbatim>\<open>print_card_8\<close> for 8-character fields, \<^verbatim>\<open>print_card_16\<close> for
  16-character fields) and the fields handed to it. The printers and \<^verbatim>\<open>array_str\<close> are not
  under src; the member ids are kept as integer fields.\<close>

datatype printer = Print_card_8 | Print_card_16

definition MPCADD_write_file :: "ADD \<Rightarrow> nat \<Rightarrow> error + (printer \<times> field list) list" where
  "MPCADD_write_file t fsize =
     (if length (add_sid t) = 0 then Inr []
      else
        ebind (if fsize = 8 then MPCADD_is_small_field t else Inr False) (\<lambda>small.
        let print_card = (if fsize = 8 \<and> small then Print_card_8 else Print_card_16) in
        ebind (ADD_idim t) (\<lambda>idim.
        Inr (map (\<lambda>(mpc_id, (idim0, idim1)).
                    (print_card,
                     [FStr ''MPCADD'', FInt mpc_id] @ map FInt (py_slice idim0 idim1 (add_sids t))))
               (zip (add_sid t) idim)))))"

text \<open>The spec's words for the width rule, to compare with the code: an id fits a small
  field when its decimal text has at most 8 characters (a minus sign takes one).\<close>

definition fits_small_field :: "int \<Rightarrow> bool" where
  "fits_small_field v = (- 9999999 \<le> v \<and> v \<le> 99999999)"

subsection \<open>SPC1 (cards/constraints.py)\<close>

record SPC1 =
  spc1_n :: nat
  spc1_cards :: "(int \<times> int \<times> int list) list"
  spc1_spc_id :: "int list"
  spc1_components :: "int list"
  spc1_nnodes :: "nat list"
  spc1_node_id :: "int list"

definition SPC1_init :: SPC1 where
  "SPC1_init = \<lparr>spc1_n = 0, spc1_cards = [], spc1_spc_id = [], spc1_components = [],
                spc1_nnodes = [], spc1_node_id = []\<rparr>"

text \<open>\<^verbatim>\<open>SPC1.add\<close> with a list of nodes.\<close>

definition SPC1_add :: "SPC1 \<Rightarrow> int \<Rightarrow> int \<Rightarrow> int list \<Rightarrow> SPC1" where
  "SPC1_add t spc_id components nodes =
     t\<lparr>spc1_cards := spc1_cards t @ [(spc_id, components, nodes)], spc1_n := spc1_n t + 1\<rparr>"

text \<open>\<^verbatim>\<open>SPC1._save\<close>: the columns are replaced and \<^verbatim>\<open>n\<close> is set from the id column.\<close>

definition SPC1_save :: "SPC1 \<Rightarrow> int list \<Rightarrow> int list \<Rightarrow> int list \<Rightarrow> nat list \<Rightarrow> SPC1" where
  "SPC1_save t spc_id node_id components nnodes =
     t\<lparr>spc1_spc_id := spc_id, spc1_node_id := node_id, spc1_components := components,
       spc1_nnodes := nnodes, spc1_n := length spc_id\<rparr>"

text \<open>The body of \<^verbatim>\<open>SPC1.parse_cards\<close>.\<close>

definition SPC1_parse_cards :: "SPC1 \<Rightarrow> SPC1" where
  "SPC1_parse_cards t =
     (let cards = spc1_cards t;
          spc_id = map (\<lambda>(spc_idi, componentsi, nodesi). spc_idi) cards;
          components = map (\<lambda>(spc_idi, componentsi, nodesi). componentsi) cards;
          nnodes = map (\<lambda>(spc_idi, componentsi, nodesi). length nodesi) cards;
          node_id = concat (map (\<lambda>(spc_idi, componentsi, nodesi). nodesi) cards)
      in (SPC1_save t spc_id node_id components nnodes)\<lparr>spc1_cards := []\<rparr>)"

text \<open>The property \<^verbatim>\<open>inode\<close>.\<close>

definition SPC1_inode :: "SPC1 \<Rightarrow> error + (nat \<times> nat) list" where
  "SPC1_inode t = make_idim (spc1_n t) (spc1_nnodes t)"

text \<open>\<^verbatim>\<open>SPC1.__apply_slice__\<close>, called with a target \<open>spc\<close> that is another object than
  \<open>self\<close>.\<close>

definition SPC1_apply_slice :: "SPC1 \<Rightarrow> SPC1 \<Rightarrow> nat list \<Rightarrow> error + SPC1" where
  "SPC1_apply_slice self spc i =
     ebind (take_rows (spc1_spc_id self) i) (\<lambda>spc_id.
     ebind (take_rows (spc1_components self) i) (\<lambda>components.
     ebind (take_rows (spc1_nnodes self) i) (\<lambda>nnodes.
     ebind (SPC1_inode self) (\<lambda>idim.
     ebind (hslice_by_idim i idim (spc1_node_id self)) (\<lambda>node_id.
     Inr (spc\<lparr>spc1_n := length i, spc1_spc_id := spc_id, spc1_components := components,
               spc1_nnodes := nnodes, spc1_node_id := node_id\<rparr>))))))"

text \<open>\<^verbatim>\<open>SPC1.slice_card_by_index\<close>.\<close>

definition SPC1_slice_card_by_index :: "SPC1 \<Rightarrow> nat list \<Rightarrow> error + SPC1" where
  "SPC1_slice_card_by_index self i = SPC1_apply_slice self SPC1_init i"

text \<open>Modelled from the spec: \<^verbatim>\<open>slice_card_by_index\<close> of LOAD is inherited from the base
  class, which is not under src; as for SPC1, the spec's \<^verbatim>\<open>slice_by_index\<close> returns a new
  table instance filled by \<^verbatim>\<open>__apply_slice__\<close>.\<close>

definition LOAD_slice_card_by_index :: "LOAD \<Rightarrow> nat list \<Rightarrow> error + LOAD" where
  "LOAD_slice_card_by_index self i = LOAD_apply_slice self LOAD_init i"

subsection \<open>MAT1 (cards/materials.py)\<close>

record MAT1 =
  mat1_n :: nat
  mat1_material_id :: "int list"
  mat1_E :: "real list"
  mat1_G :: "real list"
  mat1_nu :: "real list"
  mat1_rho :: "real list"
  mat1_alpha :: "real list"
  mat1_tref :: "real list"
  mat1_ge :: "real list"
  mat1_Ss :: "real list"
  mat1_St :: "real list"
  mat1_Sc :: "real list"
  mat1_mcsid :: "int list"

definition MAT1_init :: MAT1 where
  "MAT1_init = \<lparr>mat1_n = 0, mat1_material_id = [], mat1_E = [], mat1_G = [], mat1_nu = [],
                mat1_rho = [], mat1_alpha = [], mat1_tref = [], mat1_ge = [], mat1_Ss = [],
                mat1_St = [], mat1_Sc = [], mat1_mcsid = []\<rparr>"

text \<open>\<^verbatim>\<open>MAT1._save\<close>. In the branch for a table that already holds rows, the source stacks
  \<^verbatim>\<open>material_id\<close> a second time after \<^verbatim>\<open>ge\<close>.\<close>

definition MAT1_save ::
  "MAT1 \<Rightarrow> int list \<Rightarrow> real list \<Rightarrow> real list \<Rightarrow> real list \<Rightarrow> real list \<Rightarrow> real list \<Rightarrow>
   real list \<Rightarrow> real list \<Rightarrow> real list \<Rightarrow> real list \<Rightarrow> real list \<Rightarrow> int list \<Rightarrow> MAT1" where
  "MAT1_save t material_id E G nu rho alpha tref ge Ss St Sc mcsid =
     (if length (mat1_material_id t) \<noteq> 0
      then
        let material_id1 = mat1_material_id t @ material_id;
            material_id2 = mat1_material_id t @ material_id1
        in t\<lparr>mat1_material_id := material_id2,
             mat1_E := mat1_E t @ E, mat1_G := mat1_G t @ G, mat1_nu := mat1_nu t @ nu,
             mat1_rho := mat1_rho t @ rho, mat1_alpha := mat1_alpha t @ alpha,
             mat1_tref := mat1_tref t @ tref, mat1_ge := mat1_ge t @ ge,
             mat1_Ss := mat1_Ss t @ Ss, mat1_St := mat1_St t @ St, mat1_Sc := mat1_Sc t @ Sc,
             mat1_mcsid := mat1_mcsid t @ mcsid\<rparr>
      else t\<lparr>mat1_material_id := material_id, mat1_E := E, mat1_G := G, mat1_nu := nu,
             mat1_rho := rho, mat1_alpha := alpha, mat1_tref := tref, mat1_ge := ge,
             mat1_Ss := Ss, mat1_St := St, mat1_Sc := Sc, mat1_mcsid := mcsid\<rparr>)"

text \<open>Modelled from the spec: \<^verbatim>\<open>set_blank_if_default\<close> of the non-vectorized material cards
  is not under src. The spec's default elision renders a field as blank when its value equals
  the card's documented default, and as the value otherwise.\<close>

definition set_blank_if_default :: "real \<Rightarrow> real \<Rightarrow> field" where
  "set_blank_if_default v d = (if v = d then FBlank else FFloat v)"

definition set_blank_if_default_int :: "int \<Rightarrow> int \<Rightarrow> field" where
  "set_blank_if_default_int v d = (if v = d then FBlank else FInt v)"

text \<open>The rows that the loop of \<^verbatim>\<open>MAT1.write_file\<close> visits, in the order of the
  \<^verbatim>\<open>zip_longest\<close> call: \<^verbatim>\<open>(mid, e, g, nu, rho, alpha, tref, ge, Ss, St, Sc, mcsid)\<close>. For
  columns of equal length \<^verbatim>\<open>zip_longest\<close> is \<^verbatim>\<open>zip\<close>.\<close>

definition MAT1_rows ::
  "MAT1 \<Rightarrow> (int \<times> real \<times> real \<times> real \<times> real \<times> real \<times> real \<times> real \<times> real \<times> real \<times> real \<times> int) list" where
  "MAT1_rows t =
     zip (mat1_material_id t) (zip (mat1_E t) (zip (mat1_G t) (zip (mat1_nu t)
       (zip (mat1_rho t) (zip (mat1_alpha t) (zip (mat1_tref t) (zip (mat1_ge t)
         (zip (mat1_Ss t) (zip (mat1_St t) (zip (mat1_Sc t) (mat1_mcsid t)))))))))))"

text \<open>The body of the loop of \<^verbatim>\<open>MAT1.write_file\<close>: the \<^verbatim>\<open>list_fields\<close> handed to the card
  printer for one row. \<^verbatim>\<open>get_G_default\<close> (not under src) is a parameter.\<close>

definition MAT1_list_fields ::
  "(real \<Rightarrow> real \<Rightarrow> real \<Rightarrow> real) \<Rightarrow>
   (int \<times> real \<times> real \<times> real \<times> real \<times> real \<times> real \<times> real \<times> real \<times> real \<times> real \<times> int) \<Rightarrow>
   field list" where
  "MAT1_list_fields get_G_default row =
     (case row of (mid, e, g, nu, rho, alpha, tref, ge, Ss, St, Sc, mcsid) \<Rightarrow>
        let g_default = get_G_default e g nu;
            G = set_blank_if_default g g_default;
            rho' = set_blank_if_default rho 0;
            a = set_blank_if_default alpha 0;
            tref' = set_blank_if_default tref 0;
            ge' = set_blank_if_default ge 0
        in if St = 0 \<and> Sc = 0 \<and> Ss = 0 \<and> mcsid = 0
           then [FStr ''MAT1'', FInt mid, FFloat e, G, FFloat nu, rho', a, tref', ge']
           else [FStr ''MAT1'', FInt mid, FFloat e, G, FFloat nu, rho', a, tref', ge',
                 set_blank_if_default St 0, set_blank_if_default Sc 0,
                 set_blank_if_default Ss 0, set_blank_if_default_int mcsid 0])"

text \<open>\<^verbatim>\<open>MAT1.write_file\<close>: one \<^verbatim>\<open>list_fields\<close> per row, in row order (the decorator
  \<^verbatim>\<open>parse_material_check\<close>, the choice of the printer and the text of the fields belong to
  \<^verbatim>\<open>base_card\<close> and \<^verbatim>\<open>write_utils\<close>, which are not under src).\<close>

definition MAT1_write_file ::
  "(real \<Rightarrow> real \<Rightarrow> real \<Rightarrow> real) \<Rightarrow> MAT1 \<Rightarrow> field list list" where
  "MAT1_write_file get_G_default t = map (MAT1_list_fields get_G_default) (MAT1_rows t)"

subsection \<open>CONM2 (cards/elements/mass.py)\<close>

record CONM2 =
  conm2_n :: nat
  conm2_element_id :: "int list"
  conm2_mass :: "real list"
  conm2_coord_id :: "int list"
  conm2_node_id :: "int list"
  conm2_xyz_offset :: "real list list"
  conm2_inertia :: "real list list"

definition CONM2_init :: CONM2 where
  "CONM2_init = \<lparr>conm2_n = 0, conm2_element_id = [], conm2_mass = [], conm2_coord_id = [],
                 conm2_node_id = [], conm2_xyz_offset = [], conm2_inertia = []\<rparr>"

text \<open>\<^verbatim>\<open>CONM2._save\<close>: a table that already holds rows refuses a further batch.\<close>

definition CONM2_save ::
  "CONM2 \<Rightarrow> int list \<Rightarrow> real list \<Rightarrow> int list \<Rightarrow> int list \<Rightarrow> real list list \<Rightarrow> real list list \<Rightarrow>
   error + CONM2" where
  "CONM2_save t element_id mass coord_id node_id xyz_offset inertia =
     (if length (conm2_element_id t) \<noteq> 0 then Inl RuntimeError
      else Inr (t\<lparr>conm2_element_id := element_id, conm2_mass := mass, conm2_coord_id := coord_id,
                  conm2_node_id := node_id, conm2_xyz_offset := xyz_offset,
                  conm2_inertia := inertia\<rparr>))"

section \<open>Example tables\<close>

text \<open>SET1 tables with two staged cards, as two calls of \<^verbatim>\<open>add\<close> leave them: set 2 with
  the id 10 and set 1 with the ids 20 and 30, in this order and in the opposite order; and the
  table that \<^verbatim>\<open>parse_cards\<close> makes of the second.\<close>

definition set1_staged_example :: SET1 where
  "set1_staged_example =
     \<lparr>set1_n = 2, set1_cards = [(2, False, [10]), (1, False, [20, 30])], set1_set_id = [],
      set1_is_skin = [], set1_num_ids = [], set1_ids = [], set1_dims = None\<rparr>"

definition set1_staged_ascending_example :: SET1 where
  "set1_staged_ascending_example =
     \<lparr>set1_n = 2, set1_cards = [(1, False, [20, 30]), (2, False, [10])], set1_set_id = [],
      set1_is_skin = [], set1_num_ids = [], set1_ids = [], set1_dims = None\<rparr>"

definition set1_parsed_example :: SET1 where
  "set1_parsed_example =
     \<lparr>set1_n = 2, set1_cards = [], set1_set_id = [1, 2], set1_is_skin = [False, False],
      set1_num_ids = [2, 1], set1_ids = [20, 30, 10], set1_dims = None\<rparr>"

text \<open>A SET1 table with two sets, stored in descending order of set id, as \<^verbatim>\<open>_save\<close>
  stores the two cards of \<open>set1_staged_example\<close>: set 2 holds the single id 10 and set 1
  holds the ids 20 and 30.\<close>

definition set1_example :: SET1 where
  "set1_example = \<lparr>set1_n = 2, set1_cards = [], set1_set_id = [2, 1], set1_is_skin = [False, False],
                   set1_num_ids = [1, 2], set1_ids = [10, 20, 30], set1_dims = None\<rparr>"

text \<open>A LOAD table with the single row \<^verbatim>\<open>LOAD, 1, 2.0, 3.0, 10\<close> (global scale 2, one member
  with scale factor 3 and load id 10), and a concrete FORCE table with one row of load id 10.\<close>

definition load_example :: LOAD where
  "load_example = \<lparr>load_n = 1, load_cards = [], load_load_id = [1], load_scale = [2],
                   load_nloads = [1], load_load_ids = [10], load_scale_factors = [3]\<rparr>"

definition force_example :: "unit ctable" where
  "force_example = \<lparr>ct_type = ''FORCE'', ct_n = 1, ct_id = [10], ct_data = [()]\<rparr>"

text \<open>An SPCADD table with the single row \<^verbatim>\<open>SPCADD, 100, 3\<close> and a concrete SPC table
  whose rows all carry the constraint id 1: the member id 3 is carried by no table.\<close>

definition spcadd_example :: ADD where
  "spcadd_example = \<lparr>add_n = 1, add_cards = [], add_sid = [100], add_sids = [3],
                     add_nsids = [1]\<rparr>"

definition spc_example :: "unit ctable" where
  "spc_example = \<lparr>ct_type = ''SPC'', ct_n = 2, ct_id = [1, 1], ct_data = [(), ()]\<rparr>"

text \<open>A LOAD table with the single row \<^verbatim>\<open>LOAD, 1, 2.0, 3.0, 99\<close>; load id 99 is carried
  by no table.\<close>

definition load_dangling_example :: LOAD where
  "load_dangling_example = \<lparr>load_n = 1, load_cards = [], load_load_id = [1], load_scale = [2],
                            load_nloads = [1], load_load_ids = [99], load_scale_factors = [3]\<rparr>"

text \<open>MPCADD tables with one row each: \<^verbatim>\<open>MPCADD, 1, 99999999\<close> (the largest id of
  8 digits) and \<^verbatim>\<open>MPCADD, 1, 100000000\<close> (9 digits).\<close>

definition mpcadd_example :: ADD where
  "mpcadd_example = \<lparr>add_n = 1, add_cards = [], add_sid = [1], add_sids = [99999999],
                     add_nsids = [1]\<rparr>"

definition mpcadd_large_example :: ADD where
  "mpcadd_large_example = \<lparr>add_n = 1, add_cards = [], add_sid = [1], add_sids = [100000000],
                           add_nsids = [1]\<rparr>"

text \<open>A MAT1 table with one row whose optional fields all have their default.\<close>

definition mat1_example :: MAT1 where
  "mat1_example = \<lparr>mat1_n = 1, mat1_material_id = [7], mat1_E = [10], mat1_G = [5],
                   mat1_nu = [1 / 4], mat1_rho = [0], mat1_alpha = [0], mat1_tref = [0],
                   mat1_ge = [0], mat1_Ss = [0], mat1_St = [0], mat1_Sc = [0], mat1_mcsid = [0]\<rparr>"

text \<open>A CONM2 table that holds one row.\<close>

definition conm2_example :: CONM2 where
  "conm2_example = \<lparr>conm2_n = 1, conm2_element_id = [1], conm2_mass = [5], conm2_coord_id = [0],
                    conm2_node_id = [10], conm2_xyz_offset = [[0, 0, 0]],
                    conm2_inertia = [[0, 0, 0, 0, 0, 0]]\<rparr>"


text \<open>The table that \<^verbatim>\<open>parse_cards\<close> makes of \<open>add_staged_example\<close>.\<close>

definition add_parsed_example :: ADD where
  "add_parsed_example = \<lparr>add_n = 1, add_cards = [], add_sid = [2], add_sids = [1, 3],
                         add_nsids = [2]\<rparr>"

text \<open>A concrete FORCE table with the load ids 10 and 20, and a LOAD table whose single row
  \<^verbatim>\<open>LOAD, 20, 2.0, 2.0, 10\<close> has the id 20 itself and references load 10 only.\<close>

definition force2_example :: "unit ctable" where
  "force2_example = \<lparr>ct_type = ''FORCE'', ct_n = 2, ct_id = [10, 20], ct_data = [(), ()]\<rparr>"

definition load_collide_example :: LOAD where
  "load_collide_example = \<lparr>load_n = 1, load_cards = [], load_load_id = [20], load_scale = [2],
                           load_nloads = [1], load_load_ids = [10], load_scale_factors = [2]\<rparr>"

section \<open>Theorems\<close>

lemma ebind_Inl [simp]: "ebind (Inl e) f = Inl e"
  by (simp add: ebind_def)

lemma ebind_Inr [simp]: "ebind (Inr x) f = f x"
  by (simp add: ebind_def)

lemma ebind_eq_Inr: "ebind m f = Inr r \<longleftrightarrow> (\<exists>x. m = Inr x \<and> f x = Inr r)"
  by (cases m) simp_all

lemma np_argsort_example: "np_argsort [2, 1] = [1, 0]"
  by (simp add: np_argsort_def upt_rec)

lemma set1_example_rows:
  "SET1_rows set1_example = Inr [(2, False, [10]), (1, False, [20, 30])]"
  by (simp add: SET1_rows_def set1_example_def SET1_inid_def make_idim_def py_slice_def)

lemma set1_sorted_rows:
  "SET1_rows \<lparr>set1_n = 2, set1_cards = [], set1_set_id = [1, 2], set1_is_skin = [False, False],
        set1_num_ids = [2, 1], set1_ids = [10, 20, 30], set1_dims = Some [20, 30, 10]\<rparr> =
   Inr [(1, False, [10, 20]), (2, False, [30])]"
  by (simp add: SET1_rows_def SET1_inid_def make_idim_def py_slice_def)

subsection \<open>SET1: sort and slice\<close>

text \<open>
  C2. The claim: when the id column is not in order, \<^verbatim>\<open>SET1.sort\<close> reorders every parallel
  array by ascending set id and permutes the flat id array with the re-derived offsets, so
  that every set id keeps its list of ids. On the table \<open>set1_example\<close> (set 2 = [10],
  set 1 = [20, 30]) the code does not: \<^verbatim>\<open>__apply_slice__\<close> stores the permuted flat array in
  the attribute \<^verbatim>\<open>dims\<close> and leaves \<^verbatim>\<open>ids\<close> as it was, while \<^verbatim>\<open>set_id\<close> and
  \<^verbatim>\<open>num_ids\<close> are permuted. After the sort the rows read set 1 = [10, 20] and set 2 = [30].
  \<^verbatim>\<open>parse_cards\<close> reaches this state by itself: it sorts what \<^verbatim>\<open>_save\<close> stored for the two
  cards \<^verbatim>\<open>add(2, [10])\<close> and \<^verbatim>\<open>add(1, [20, 30])\<close>.
\<close>

theorem SET1_sort_leaves_ids_unpermuted:
  "SET1_rows set1_example = Inr [(2, False, [10]), (1, False, [20, 30])] \<and>
   ebind (SET1_sort ((\<lambda>_. SET1_init)(0 := set1_example)) 0) (\<lambda>h. Inr (h 0)) =
     Inr \<lparr>set1_n = 2, set1_cards = [], set1_set_id = [1, 2], set1_is_skin = [False, False],
          set1_num_ids = [2, 1], set1_ids = [10, 20, 30], set1_dims = Some [20, 30, 10]\<rparr> \<and>
   ebind (SET1_sort ((\<lambda>_. SET1_init)(0 := set1_example)) 0) (\<lambda>h. SET1_rows (h 0)) =
     Inr [(1, False, [10, 20]), (2, False, [30])] \<and>
   SET1_add (SET1_add SET1_init 2 [10] False) 1 [20, 30] False = set1_staged_example \<and>
   ebind (SET1_parse_cards (\<lambda>ids. ids) ((\<lambda>_. SET1_init)(0 := set1_staged_example)) 0)
       (\<lambda>h. SET1_rows (h 0)) =
     Inr [(1, False, [10, 20]), (2, False, [30])]"
proof (intro conjI)
  show "SET1_rows set1_example = Inr [(2, False, [10]), (1, False, [20, 30])]"
    by (rule set1_example_rows)
  show "ebind (SET1_sort ((\<lambda>_. SET1_init)(0 := set1_example)) 0) (\<lambda>h. Inr (h 0)) =
     Inr \<lparr>set1_n = 2, set1_cards = [], set1_set_id = [1, 2], set1_is_skin = [False, False],
          set1_num_ids = [2, 1], set1_ids = [10, 20, 30], set1_dims = Some [20, 30, 10]\<rparr>"
    by (simp add: SET1_sort_def SET1_apply_slice_def np_unique_def np_argsort_example
        set1_example_def SET1_inid_def make_idim_def py_slice_def Let_def)
  show "ebind (SET1_sort ((\<lambda>_. SET1_init)(0 := set1_example)) 0) (\<lambda>h. SET1_rows (h 0)) =
     Inr [(1, False, [10, 20]), (2, False, [30])]"
    by (simp add: SET1_sort_def SET1_apply_slice_def np_unique_def np_argsort_example
        set1_example_def SET1_inid_def make_idim_def py_slice_def Let_def SET1_rows_def)
  show "SET1_add (SET1_add SET1_init 2 [10] False) 1 [20, 30] False = set1_staged_example"
    by (simp add: SET1_add_def SET1_init_def set1_staged_example_def)
  show "ebind (SET1_parse_cards (\<lambda>ids. ids) ((\<lambda>_. SET1_init)(0 := set1_staged_example)) 0)
       (\<lambda>h. SET1_rows (h 0)) =
     Inr [(1, False, [10, 20]), (2, False, [30])]"
    by (simp add: SET1_parse_cards_def SET1_save_def SET1_sort_def SET1_apply_slice_def
        np_unique_def np_argsort_example set1_staged_example_def SET1_inid_def make_idim_def
        py_slice_def Let_def SET1_rows_def)
qed

text \<open>
  C3. The claim: for SET1, SPC1 and LOAD the ragged invariant
  \<^verbatim>\<open>sum(count_array) == len(flat_array)\<close> holds after every \<^verbatim>\<open>parse_cards\<close> and after every
  slice by index. For SET1 the slice breaks it: \<open>set1_parsed_example\<close> is the table that
  \<^verbatim>\<open>parse_cards\<close> makes of the cards \<^verbatim>\<open>add(1, [20, 30])\<close> and \<^verbatim>\<open>add(2, [10])\<close>, and slicing
  its row 0 (set 1 with two ids) gives a table whose count column sums to 2 and whose flat id
  array is empty, because the re-sliced values are stored in \<^verbatim>\<open>dims\<close>.
\<close>

theorem SET1_slice_breaks_ragged_invariant:
  "SET1_add (SET1_add SET1_init 1 [20, 30] False) 2 [10] False = set1_staged_ascending_example \<and>
   ebind (SET1_parse_cards (\<lambda>ids. ids) ((\<lambda>_. SET1_init)(0 := set1_staged_ascending_example)) 0)
       (\<lambda>h. Inr (h 0)) = Inr set1_parsed_example \<and>
   SET1_slice_card_by_index set1_parsed_example [0] =
     Inr \<lparr>set1_n = 1, set1_cards = [], set1_set_id = [1], set1_is_skin = [False],
          set1_num_ids = [2], set1_ids = [], set1_dims = Some [20, 30]\<rparr> \<and>
   ebind (SET1_slice_card_by_index set1_parsed_example [0])
     (\<lambda>s. Inr (sum_list (set1_num_ids s), length (set1_ids s))) = Inr (2, 0)"
proof (intro conjI)
  show "SET1_add (SET1_add SET1_init 1 [20, 30] False) 2 [10] False =
      set1_staged_ascending_example"
    by (simp add: SET1_add_def SET1_init_def set1_staged_ascending_example_def)
  show "ebind (SET1_parse_cards (\<lambda>ids. ids)
          ((\<lambda>_. SET1_init)(0 := set1_staged_ascending_example)) 0)
       (\<lambda>h. Inr (h 0)) = Inr set1_parsed_example"
    by (simp add: SET1_parse_cards_def SET1_save_def SET1_sort_def np_unique_def
        set1_staged_ascending_example_def set1_parsed_example_def Let_def)
  show "SET1_slice_card_by_index set1_parsed_example [0] =
     Inr \<lparr>set1_n = 1, set1_cards = [], set1_set_id = [1], set1_is_skin = [False],
          set1_num_ids = [2], set1_ids = [], set1_dims = Some [20, 30]\<rparr>"
    by (simp add: SET1_slice_card_by_index_def SET1_apply_slice_def SET1_init_def
        set1_parsed_example_def SET1_inid_def make_idim_def py_slice_def Let_def)
  show "ebind (SET1_slice_card_by_index set1_parsed_example [0])
     (\<lambda>s. Inr (sum_list (set1_num_ids s), length (set1_ids s))) = Inr (2, 0)"
    by (simp add: SET1_slice_card_by_index_def SET1_apply_slice_def SET1_init_def
        set1_parsed_example_def SET1_inid_def make_idim_def py_slice_def Let_def)
qed

text \<open>The SPC1 and LOAD tables keep the ragged invariant: \<^verbatim>\<open>parse_cards\<close> establishes it
  and a slice by index preserves it (and sets \<^verbatim>\<open>n\<close> to the number of selected rows).\<close>

lemma length_idim_from [simp]: "length (idim_from off cs) = length cs"
  by (induction cs arbitrary: off) simp_all

lemma idim_from_nth:
  "k < length cs \<Longrightarrow>
   idim_from off cs ! k = (off + sum_list (take k cs), off + sum_list (take k cs) + cs ! k)"
proof (induction cs arbitrary: off k)
  case Nil
  then show ?case by simp
next
  case (Cons c cs)
  show ?case
  proof (cases k)
    case 0
    then show ?thesis by simp
  next
    case (Suc j)
    with Cons.prems have "j < length cs" by simp
    from Cons.IH[OF this, of "off + c"] Suc show ?thesis by (simp add: add.assoc)
  qed
qed

lemma sum_list_take_nth_le:
  fixes cs :: "nat list"
  assumes "k < length cs"
  shows "sum_list (take k cs) + cs ! k \<le> sum_list cs"
proof -
  have "sum_list cs = sum_list (take (Suc k) cs) + sum_list (drop (Suc k) cs)"
    by (metis append_take_drop_id sum_list_append)
  moreover have "sum_list (take (Suc k) cs) = sum_list (take k cs) + cs ! k"
    using assms by (simp add: take_Suc_conv_app_nth)
  ultimately show ?thesis by simp
qed

lemma length_py_slice:
  "b \<le> length xs \<Longrightarrow> length (py_slice a b xs) = b - a"
  by (auto simp: py_slice_def)

lemma hslice_by_idim_length:
  assumes "sum_list cs \<le> length elements"
  shows "hslice_by_idim i (idim_from 0 cs) elements = Inr r \<Longrightarrow> take_rows cs i = Inr cs' \<Longrightarrow>
         length r = sum_list cs'"
proof (induction i arbitrary: r cs')
  case Nil
  then show ?case by auto
next
  case (Cons k ks)
  from Cons.prems(2) have k: "k < length cs"
    by (auto split: if_splits)
  from Cons.prems(1) k obtain r' where
    r': "hslice_by_idim ks (idim_from 0 cs) elements = Inr r'"
    and r: "r = py_slice (sum_list (take k cs)) (sum_list (take k cs) + cs ! k) elements @ r'"
    by (auto simp: ebind_eq_Inr idim_from_nth)
  from Cons.prems(2) k obtain c' where
    c': "take_rows cs ks = Inr c'" and cs': "cs' = cs ! k # c'"
    by (auto simp: ebind_eq_Inr)
  have "sum_list (take k cs) + cs ! k \<le> length elements"
    using sum_list_take_nth_le[OF k] assms by simp
  then have "length (py_slice (sum_list (take k cs)) (sum_list (take k cs) + cs ! k) elements) = cs ! k"
    by (simp add: length_py_slice)
  with Cons.IH[OF r' c'] r cs' show ?case by simp
qed

lemma take_rows_length: "take_rows xs i = Inr r \<Longrightarrow> length r = length i"
  by (induction i arbitrary: r) (auto simp: ebind_eq_Inr split: if_splits)

lemma SPC1_parse_cards_ragged:
  "sum_list (spc1_nnodes (SPC1_parse_cards t)) = length (spc1_node_id (SPC1_parse_cards t)) \<and>
   spc1_n (SPC1_parse_cards t) = length (spc1_nnodes (SPC1_parse_cards t))"
  by (simp add: SPC1_parse_cards_def SPC1_save_def Let_def length_concat case_prod_unfold comp_def)

lemma SPC1_apply_slice_ragged:
  assumes "sum_list (spc1_nnodes self) = length (spc1_node_id self)"
    and "SPC1_apply_slice self spc i = Inr r"
  shows "sum_list (spc1_nnodes r) = length (spc1_node_id r) \<and> spc1_n r = length (spc1_nnodes r)"
proof -
  from assms(2) obtain nnodes node_id where
    nn: "take_rows (spc1_nnodes self) i = Inr nnodes"
    and hs: "hslice_by_idim i (idim_from 0 (spc1_nnodes self)) (spc1_node_id self) = Inr node_id"
    and r: "spc1_nnodes r = nnodes" "spc1_node_id r = node_id" "spc1_n r = length i"
    by (auto simp: SPC1_apply_slice_def SPC1_inode_def make_idim_def ebind_eq_Inr split: if_splits)
  from hslice_by_idim_length[OF _ hs nn] assms(1) r take_rows_length[OF nn]
  show ?thesis by simp
qed

lemma LOAD_add_staged_ok:
  "LOAD_staged_ok t \<Longrightarrow> LOAD_add t sid scale scale_factors load_ids = Inr t' \<Longrightarrow> LOAD_staged_ok t'"
  by (auto simp: LOAD_add_def LOAD_staged_ok_def split: if_splits)

lemma staged_lengths:
  "list_all (\<lambda>(sid, scale, scale_factors, load_ids). length scale_factors = length load_ids) cards \<Longrightarrow>
   sum_list (map (\<lambda>(sid, scalei, scale_factors, load_ids). length scale_factors) cards) =
     length (concat (map (\<lambda>(sid, scalei, scale_factors, load_ids). load_ids) cards)) \<and>
   sum_list (map (\<lambda>(sid, scalei, scale_factors, load_ids). length scale_factors) cards) =
     length (concat (map (\<lambda>(sid, scalei, scale_factors, load_ids). scale_factors) cards))"
  by (induction cards) auto

lemma LOAD_parse_cards_ragged:
  assumes "LOAD_ragged_ok t" and "LOAD_staged_ok t" and "LOAD_parse_cards t = Inr t'"
  shows "LOAD_ragged_ok t'"
  using assms staged_lengths[of "load_cards t"]
  by (auto simp: LOAD_parse_cards_def LOAD_save_def LOAD_ragged_ok_def LOAD_staged_ok_def Let_def
      split: if_splits)

lemma LOAD_apply_slice_ragged:
  assumes "LOAD_ragged_ok self" and "LOAD_apply_slice self load i = Inr r"
  shows "LOAD_ragged_ok r \<and> load_n r = length (load_nloads r)"
proof -
  from assms(2) obtain nloads lids sfs where
    nn: "take_rows (load_nloads self) i = Inr nloads"
    and h1: "hslice_by_idim i (idim_from 0 (load_nloads self)) (load_load_ids self) = Inr lids"
    and h2: "hslice_by_idim i (idim_from 0 (load_nloads self)) (load_scale_factors self) = Inr sfs"
    and r: "load_nloads r = nloads" "load_load_ids r = lids" "load_scale_factors r = sfs"
      "load_n r = length i"
    by (auto simp: LOAD_apply_slice_def LOAD_iload_def make_idim_def ebind_eq_Inr split: if_splits)
  from hslice_by_idim_length[OF _ h1 nn] hslice_by_idim_length[OF _ h2 nn] assms(1) r
    take_rows_length[OF nn]
  show ?thesis by (simp add: LOAD_ragged_ok_def)
qed

text \<open>\<^verbatim>\<open>SET1.parse_cards\<close> keeps the invariant too: its sort permutes the counts and
  leaves the flat array as it is, so the sum of the counts is still the length of the flat
  array (the rows no longer read their own ids, as C2 shows).\<close>

lemma take_rows_eq_map: "take_rows xs i = Inr r \<Longrightarrow> r = map (nth xs) i"
  by (induction i arbitrary: r) (auto simp: ebind_eq_Inr split: if_splits)

lemma sum_list_map_insort_key:
  fixes f :: "'a \<Rightarrow> nat"
  shows "sum_list (map f (insort_key k x xs)) = f x + sum_list (map f xs)"
  by (induction xs) simp_all

lemma sum_list_map_sort_key:
  fixes f :: "'a \<Rightarrow> nat"
  shows "sum_list (map f (sort_key k xs)) = sum_list (map f xs)"
  by (induction xs) (simp_all add: sum_list_map_insort_key)

lemma sum_list_nth_np_argsort:
  fixes xs :: "nat list"
  assumes "length ys = length xs"
  shows "sum_list (map (nth xs) (np_argsort ys)) = sum_list xs"
proof -
  have "sum_list (map (nth xs) (np_argsort ys)) =
        sum_list (map (nth xs \<circ> snd) (sort_key fst (zip ys [0..<length ys])))"
    by (simp add: np_argsort_def)
  also have "\<dots> = sum_list (map (nth xs \<circ> snd) (zip ys [0..<length ys]))"
    by (rule sum_list_map_sort_key)
  also have "\<dots> = sum_list (map (nth xs) [0..<length xs])"
  proof -
    have "map (nth xs \<circ> snd) (zip ys [0..<length ys]) =
          map (nth xs) (map snd (zip ys [0..<length ys]))"
      by (simp only: map_map)
    moreover have "map snd (zip ys [0..<length ys]) = [0..<length ys]"
      by (rule map_snd_zip) simp
    ultimately show ?thesis
      using assms by (simp only:)
  qed
  also have "\<dots> = sum_list xs"
    by (simp add: map_nth)
  finally show ?thesis .
qed

lemma length_np_argsort [simp]: "length (np_argsort ys) = length ys"
  by (simp add: np_argsort_def)

lemma SET1_sort_keeps_ragged:
  assumes "SET1_sort h self = Inr h'"
    and "sum_list (set1_num_ids (h self)) = length (set1_ids (h self))"
  shows "sum_list (set1_num_ids (h' self)) = length (set1_ids (h' self))"
proof (cases "np_unique (set1_set_id (h self)) = set1_set_id (h self)")
  case True
  with assms show ?thesis by (simp add: SET1_sort_def)
next
  case False
  let ?i = "np_argsort (set1_set_id (h self))"
  from False assms(1) have ap: "SET1_apply_slice h self self ?i = Inr h'"
    by (simp add: SET1_sort_def)
  then obtain cnt where
    len: "length ?i = length (set1_num_ids (h self))"
    and cnt: "take_rows (set1_num_ids (h self)) ?i = Inr cnt"
    and h': "set1_num_ids (h' self) = cnt" "set1_ids (h' self) = set1_ids (h self)"
    by (auto simp: SET1_apply_slice_def Let_def ebind_eq_Inr SET1_inid_def make_idim_def
        split: if_splits)
  from take_rows_eq_map[OF cnt] have "cnt = map (nth (set1_num_ids (h self))) ?i" .
  with sum_list_nth_np_argsort[of "set1_set_id (h self)" "set1_num_ids (h self)"] len
  have "sum_list cnt = sum_list (set1_num_ids (h self))" by simp
  with h' assms(2) show ?thesis by simp
qed

lemma SET1_parse_cards_ragged:
  assumes "SET1_parse_cards expand_thru h self = Inr h'"
  shows "sum_list (set1_num_ids (h' self)) = length (set1_ids (h' self))"
proof -
  let ?cards = "set1_cards (h self)"
  let ?s1 = "SET1_save (h self) (map (\<lambda>(sid, is_skini, idsi). sid) ?cards)
      (map (\<lambda>(sid, is_skini, idsi). is_skini) ?cards)
      (map (\<lambda>(sid, is_skini, idsi). length (expand_thru idsi)) ?cards)
      (concat (map (\<lambda>(sid, is_skini, idsi). expand_thru idsi) ?cards))"
  from assms obtain h2 where
    srt: "SET1_sort (h(self := ?s1)) self = Inr h2"
    and h': "h' = h2(self := (h2 self)\<lparr>set1_cards := []\<rparr>)"
    by (auto simp: SET1_parse_cards_def Let_def ebind_eq_Inr)
  have "sum_list (set1_num_ids ?s1) = length (set1_ids ?s1)"
    by (simp add: SET1_save_def length_concat case_prod_unfold comp_def)
  with SET1_sort_keeps_ragged[OF srt] have "sum_list (set1_num_ids (h2 self)) = length (set1_ids (h2 self))"
    by simp
  with h' show ?thesis by simp
qed

subsection \<open>Load reduction\<close>

lemma load_example_parsed:
  "ebind (LOAD_add LOAD_init 1 2 [3] [10]) LOAD_parse_cards = Inr load_example"
  by (simp add: LOAD_add_def LOAD_init_def LOAD_parse_cards_def LOAD_save_def load_example_def)

lemma load_example_rows: "LOAD_rows load_example = Inr [(1, 2, [(3, 10)])]"
  by (simp add: LOAD_rows_def LOAD_iload_def make_idim_def load_example_def py_slice_def)

lemma force_example_map: "get_loads_by_load_id [force_example] = Inr [(10, [force_example])]"
  by (simp add: get_loads_by_load_id_def force_example_def np_unique_def
      slice_card_by_load_id_def ct_slice_card_by_index_def dict_append_def upt_rec)

text \<open>
  C1. The claim: every member \<^verbatim>\<open>(s_i, id_i)\<close> of an aggregate row with global scale \<open>S\<close>
  that resolves in the concrete-load map is recorded with the scale factor \<open>S * s_i\<close>. For the
  row \<^verbatim>\<open>LOAD, 1, 2.0, 3.0, 10\<close> that is 2 * 3 = 6. The code records 9: the outer loop zips
  the row ids with \<^verbatim>\<open>load.scale_factors\<close> (the flat array of member scale factors) where
  \<^verbatim>\<open>write_file\<close> zips them with \<^verbatim>\<open>load.scale\<close>, so the row's global scale is read as 3.
\<close>

theorem get_reduced_loads_global_scale_from_members:
  "LOAD_rows load_example = Inr [(1, 2, [(3, 10)])] \<and>
   get_reduced_loads [force_example] load_example False False True =
     Inr [(1, [(9, [force_example])]), (10, [(1, [force_example])])]"
proof (intro conjI)
  show "LOAD_rows load_example = Inr [(1, 2, [(3, 10)])]"
    by (rule load_example_rows)
  show "get_reduced_loads [force_example] load_example False False True =
     Inr [(1, [(9, [force_example])]), (10, [(1, [force_example])])]"
    by (simp add: get_reduced_loads_def force_example_map LOAD_iload_def
        make_idim_def load_example_def py_slice_def)
qed

lemma map_of_dict_set:
  "map_of (dict_set k v d) k' = (if k' = k then Some v else map_of d k')"
  by (induction d) auto

lemma reduce_rows_other_keys:
  "reduce_rows lbl fz stop sfs lids rows red = Inr red' \<Longrightarrow> k \<notin> fst ` set rows \<Longrightarrow>
   map_of red' k = map_of red k"
proof (induction rows arbitrary: red)
  case Nil
  then show ?case by simp
next
  case (Cons row rows)
  obtain sid gs a b where row: "row = (sid, gs, a, b)" by (cases row) auto
  from Cons.prems(2) row have k: "k \<noteq> sid" "k \<notin> fst ` set rows" by auto
  show ?case
  proof (cases "gs = 0 \<and> fz")
    case True
    with Cons.prems(1) row have "reduce_rows lbl fz stop sfs lids rows red = Inr red'" by simp
    from Cons.IH[OF this k(2)] show ?thesis .
  next
    case False
    with Cons.prems(1) row obtain ri where
      ri: "(if length ri = 0 then reduce_rows lbl fz stop sfs lids rows red
            else reduce_rows lbl fz stop sfs lids rows (dict_set sid ri red)) = Inr red'"
      by (auto simp: ebind_eq_Inr Let_def)
    show ?thesis
    proof (cases "length ri = 0")
      case True
      with ri have "reduce_rows lbl fz stop sfs lids rows red = Inr red'" by simp
      from Cons.IH[OF this k(2)] show ?thesis .
    next
      case False
      with ri have "reduce_rows lbl fz stop sfs lids rows (dict_set sid ri red) = Inr red'" by simp
      from Cons.IH[OF this k(2)] k(1) show ?thesis by (simp add: map_of_dict_set)
    qed
  qed
qed

lemma add_unreferenced_keeps:
  "map_of red k = Some v \<Longrightarrow> map_of (add_unreferenced lbl red) k = Some v"
proof (induction lbl arbitrary: red)
  case Nil
  then show ?case by simp
next
  case (Cons p lbl)
  obtain k' loads where p: "p = (k', loads)" by (cases p)
  show ?case using Cons.prems p
    by (auto simp: map_of_dict_set intro!: Cons.IH)
qed

lemma add_unreferenced_adds:
  "map_of lbl k = Some loads \<Longrightarrow> map_of red k = None \<Longrightarrow>
   map_of (add_unreferenced lbl red) k = Some [(1, loads)]"
proof (induction lbl arbitrary: red)
  case Nil
  then show ?case by simp
next
  case (Cons p lbl)
  obtain k' loads' where p: "p = (k', loads')" by (cases p)
  show ?case
  proof (cases "k' = k")
    case True
    with Cons.prems p have "loads' = loads" by simp
    with True p Cons.prems(2) show ?thesis
      by (simp add: add_unreferenced_keeps map_of_dict_set)
  next
    case False
    with Cons.prems p have m: "map_of lbl k = Some loads" by simp
    show ?thesis
    proof (cases "map_of red k' = None")
      case True
      have "map_of (dict_set k' [(1, loads')] red) k = None"
        using False Cons.prems(2) by (simp add: map_of_dict_set)
      from Cons.IH[OF m this] True p show ?thesis by simp
    next
      case False
      with Cons.IH[OF m Cons.prems(2)] p show ?thesis by auto
    qed
  qed
qed

text \<open>
  C9. The claim: every concrete load id of the concrete-load map that no aggregate row
  references is in the result under its own id with scale factor 1. Two guards of the code
  stand against it as stated. With an empty LOAD table \<^verbatim>\<open>get_reduced_loads\<close> returns the
  empty dict before the map is built (the counterexample below), and the final loop skips an
  id that is already a key of the result, that is the id of an aggregate row that recorded
  members. What the code does: when the LOAD table is not empty and the call returns, every id
  of the concrete-load map that is not the id of an aggregate row is in the result under its
  own id with the single entry \<^verbatim>\<open>(1.0, loads)\<close>, referenced or not.
\<close>

theorem get_reduced_loads_includes_unreferenced:
  assumes "load_n load \<noteq> 0"
    and "get_loads_by_load_id model_load_cards = Inr loads_by_load_id"
    and "map_of loads_by_load_id k = Some loads"
    and "k \<notin> set (load_load_id load)"
    and "get_reduced_loads model_load_cards load rm fz stop = Inr reduced_loads"
  shows "map_of reduced_loads k = Some [(1, loads)]"
proof -
  from assms(1,2,5) obtain iload red where
    red: "reduce_rows loads_by_load_id fz True (load_scale_factors load) (load_load_ids load)
            (zip (load_load_id load) (zip (load_scale_factors load) iload)) [] = Inr red"
    and res: "reduced_loads = add_unreferenced loads_by_load_id red"
    by (auto simp: get_reduced_loads_def ebind_eq_Inr)
  have "k \<notin> fst ` set (zip (load_load_id load) (zip (load_scale_factors load) iload))"
    using assms(4) by (auto dest: set_zip_leftD)
  from reduce_rows_other_keys[OF red this] have "map_of red k = None" by simp
  from add_unreferenced_adds[OF assms(3) this] res show ?thesis by simp
qed

theorem get_reduced_loads_includes_unreferenced_witness:
  "load_n load_example \<noteq> 0 \<and>
   get_loads_by_load_id [force_example] = Inr [(10, [force_example])] \<and>
   map_of [(10::int, [force_example])] 10 = Some [force_example] \<and>
   10 \<notin> set (load_load_id load_example) \<and>
   get_reduced_loads [force_example] load_example False False True =
     Inr [(1, [(9, [force_example])]), (10, [(1, [force_example])])] \<and>
   map_of [(1::int, [(9::real, [force_example])]), (10, [(1, [force_example])])] 10 =
     Some [(1, [force_example])]"
proof -
  have n: "load_n load_example \<noteq> 0"
    by (simp add: load_example_def)
  have m: "map_of [(10::int, [force_example])] 10 = Some [force_example]"
    by simp
  have k: "10 \<notin> set (load_load_id load_example)"
    by (simp add: load_example_def)
  have r: "get_reduced_loads [force_example] load_example False False True =
     Inr [(1, [(9, [force_example])]), (10, [(1, [force_example])])]"
    by (simp add: get_reduced_loads_def force_example_map LOAD_iload_def
        make_idim_def load_example_def py_slice_def)
  from get_reduced_loads_includes_unreferenced [OF n force_example_map m k r] n m k r
  show ?thesis
    by (simp add: force_example_map)
qed

text \<open>The claim of C9 as stated fails on an empty LOAD table: load id 10 is in the
  concrete-load map of the model and no aggregate row references it, and the result is the
  empty dict. It also fails for a concrete load id that is the id of an aggregate row: load 20
  is referenced by no row, and the result holds the members of the row \<^verbatim>\<open>LOAD, 20\<close> under 20.\<close>

lemma force2_example_map:
  "get_loads_by_load_id [force2_example] =
     Inr [(10, [\<lparr>ct_type = ''FORCE'', ct_n = 1, ct_id = [10], ct_data = [()]\<rparr>]),
          (20, [\<lparr>ct_type = ''FORCE'', ct_n = 1, ct_id = [20], ct_data = [()]\<rparr>])]"
  by (simp add: get_loads_by_load_id_def force2_example_def np_unique_def
      slice_card_by_load_id_def ct_slice_card_by_index_def dict_append_def upt_rec)

theorem get_reduced_loads_empty_table_counterexample:
  "get_loads_by_load_id [force_example] = Inr [(10, [force_example])] \<and>
   get_reduced_loads [force_example] LOAD_init False False True = Inr [] \<and>
   get_reduced_loads [force2_example] load_collide_example False False True =
     Inr [(20, [(4, [\<lparr>ct_type = ''FORCE'', ct_n = 1, ct_id = [10], ct_data = [()]\<rparr>])]),
          (10, [(1, [\<lparr>ct_type = ''FORCE'', ct_n = 1, ct_id = [10], ct_data = [()]\<rparr>])])]"
proof (intro conjI)
  show "get_loads_by_load_id [force_example] = Inr [(10, [force_example])]"
    by (rule force_example_map)
  show "get_reduced_loads [force_example] LOAD_init False False True = Inr []"
    by (simp add: get_reduced_loads_def LOAD_init_def)
  show "get_reduced_loads [force2_example] load_collide_example False False True =
     Inr [(20, [(4, [\<lparr>ct_type = ''FORCE'', ct_n = 1, ct_id = [10], ct_data = [()]\<rparr>])]),
          (10, [(1, [\<lparr>ct_type = ''FORCE'', ct_n = 1, ct_id = [10], ct_data = [()]\<rparr>])])]"
    by (simp add: get_reduced_loads_def force2_example_map LOAD_iload_def make_idim_def
        load_collide_example_def py_slice_def)
qed

subsection \<open>Member lists of SPCADD and MPCADD\<close>









subsection \<open>Several rows on one line\<close>

text \<open>
  C5. The claim: one \<^verbatim>\<open>add_card\<close> call of DEFORM or PLOTEL increments \<^verbatim>\<open>n\<close> by exactly the
  number of logical rows staged from the line. \<^verbatim>\<open>PLOTEL.add_card\<close> increments once more at
  its end: a line with one element stages one row and leaves \<^verbatim>\<open>n = 2\<close>, a line with two
  elements stages two rows and leaves \<^verbatim>\<open>n = 3\<close>.
\<close>

theorem PLOTEL_add_card_counts_one_too_many:
  "PLOTEL_add_card PLOTEL_init [FStr ''PLOTEL'', FInt 1, FInt 10, FInt 20] =
     Inr \<lparr>plotel_n = 2, plotel_cards = [(1, [10, 20])]\<rparr> \<and>
   PLOTEL_add_card PLOTEL_init
       [FStr ''PLOTEL'', FInt 1, FInt 10, FInt 20, FBlank, FInt 2, FInt 20, FInt 30] =
     Inr \<lparr>plotel_n = 3, plotel_cards = [(1, [10, 20]), (2, [20, 30])]\<rparr>"
  by (simp add: PLOTEL_add_card_def PLOTEL_init_def integer_def card_field_def truthy_def)

text \<open>\<^verbatim>\<open>DEFORM.add_card\<close> counts correctly: a call that returns stages between one and
  three rows and increments \<^verbatim>\<open>n\<close> by their number.\<close>

lemma DEFORM_add_card_counts_rows:
  assumes "DEFORM_add_card t bdfcard = Inr t'"
  shows "\<exists>rows. deform_cards t' = deform_cards t @ rows \<and>
           deform_n t' = deform_n t + length rows \<and> 1 \<le> length rows \<and> length rows \<le> 3"
  using assms
  by (auto simp: DEFORM_add_card_def ebind_eq_Inr Let_def split: if_splits)

subsection \<open>Dangling references\<close>

lemma spc_example_map: "get_spcs_by_spc_id [spc_example] = Inr [(1, [spc_example])]"
  by (simp add: get_spcs_by_spc_id_def spc_example_def np_unique_def
      ct_slice_card_by_index_def dict_append_def upt_rec)

text \<open>
  C6. The claim: when a referenced id resolves to nothing, the caller's \<^verbatim>\<open>stop_on_failure\<close>
  decides: \<open>True\<close> raises at once, \<open>False\<close> continues with partial results. Both reduction
  functions overwrite the argument with \<open>True\<close> on entry. \<^verbatim>\<open>get_reduced_spcs\<close> called with
  \<open>False\<close> on an SPCADD row that references the missing id 3 raises (the lookup in the plain
  dict raises \<^verbatim>\<open>KeyError\<close>), and \<^verbatim>\<open>get_reduced_loads\<close> called with \<open>True\<close> on a LOAD row
  that references the missing id 99 returns without raising.
\<close>

theorem reductions_ignore_stop_on_failure:
  "get_reduced_spcs [spc_example] spcadd_example False = Inl (KeyError 3) \<and>
   get_reduced_spcs [spc_example] spcadd_example True = Inl (KeyError 3) \<and>
   get_reduced_loads [force_example] load_dangling_example False False True =
     Inr [(10, [(1, [force_example])])] \<and>
   get_reduced_loads [force_example] load_dangling_example False False False =
     Inr [(10, [(1, [force_example])])]"
  by (simp add: get_reduced_spcs_def spc_example_map ADD_idim_def make_idim_def
      spcadd_example_def py_slice_def get_reduced_loads_def force_example_map LOAD_iload_def
      load_dangling_example_def)

text \<open>The flag never reaches the loops: every call behaves as the call with \<open>True\<close>.\<close>

lemma get_reduced_spcs_flag_ignored:
  "get_reduced_spcs model_spc_cards t stop = get_reduced_spcs model_spc_cards t True"
  by (simp add: get_reduced_spcs_def)

lemma get_reduced_loads_flag_ignored:
  "get_reduced_loads model_load_cards t rm fz stop = get_reduced_loads model_load_cards t rm fz True"
  by (simp add: get_reduced_loads_def)

subsection \<open>Field width of MPCADD\<close>

text \<open>
  C7. The claim: \<^verbatim>\<open>write_file(size=8)\<close> promotes a table to 16-character fields exactly when
  some id does not fit an 8-character field. \<^verbatim>\<open>MPCADD.is_small_field\<close> compares the largest
  id with \<^verbatim>\<open>< 99_999_999\<close>, so the table \<^verbatim>\<open>MPCADD, 1, 99999999\<close>, whose ids both fit
  8 characters, is written with the 16-character printer.
\<close>

theorem MPCADD_write_file_promotes_8_digit_id:
  "fits_small_field 1 \<and> fits_small_field 99999999 \<and>
   MPCADD_write_file mpcadd_example 8 =
     Inr [(Print_card_16, [FStr ''MPCADD'', FInt 1, FInt 99999999])]"
  by (simp add: fits_small_field_def MPCADD_write_file_def MPCADD_is_small_field_def np_max_def
      ADD_idim_def make_idim_def mpcadd_example_def py_slice_def)

text \<open>The part of the claim about the id 100 000 000 holds: the table is written with the
  16-character printer, and no exception is raised.\<close>

lemma MPCADD_write_file_promotes_9_digit_id:
  "\<not> fits_small_field 100000000 \<and>
   MPCADD_write_file mpcadd_large_example 8 =
     Inr [(Print_card_16, [FStr ''MPCADD'', FInt 1, FInt 100000000])]"
  by (simp add: fits_small_field_def MPCADD_write_file_def MPCADD_is_small_field_def np_max_def
      ADD_idim_def make_idim_def mpcadd_large_example_def py_slice_def)

text \<open>The test of the code in general: a table with ids is small-field exactly when every
  id is below 99 999 999.\<close>

lemma fold_max_less:
  "fold max xs (x::int) < c \<longleftrightarrow> x < c \<and> (\<forall>v \<in> set xs. v < c)"
  by (induction xs arbitrary: x) auto

lemma MPCADD_is_small_field_iff:
  assumes "add_sid t \<noteq> []" and "add_sids t \<noteq> []"
  shows "MPCADD_is_small_field t = Inr (\<forall>v \<in> set (add_sid t @ add_sids t). v < 99999999)"
proof -
  obtain x xs where a: "add_sid t = x # xs" using assms(1) by (cases "add_sid t") auto
  obtain y ys where b: "add_sids t = y # ys" using assms(2) by (cases "add_sids t") auto
  show ?thesis
    unfolding MPCADD_is_small_field_def np_max_def a b
    by (auto simp: fold_max_less)
qed

subsection \<open>Default elision of MAT1\<close>

lemma MAT1_list_fields_defaults:
  "MAT1_list_fields gd (mid, e, g, nu, 0, 0, 0, 0, 0, 0, 0, 0) =
     [FStr ''MAT1'', FInt mid, FFloat e, set_blank_if_default g (gd e g nu), FFloat nu,
      FBlank, FBlank, FBlank, FBlank]"
  by (simp add: MAT1_list_fields_def set_blank_if_default_def)

text \<open>
  C8. For every row of a MAT1 table whose optional fields all have their default
  (\<open>rho = alpha = tref = ge = 0\<close>, \<open>Ss = St = Sc = 0\<close>, \<open>mcsid = 0\<close>), \<^verbatim>\<open>write_file\<close> hands to
  the card printer the fields \<^verbatim>\<open>MAT1, mid, E, G, nu\<close> followed by four blanks, and no
  continuation fields: no defaulted field is rendered as \<open>0.0\<close>. The field \<open>G\<close> is itself
  blank when it equals the default computed by \<^verbatim>\<open>get_G_default\<close>.
\<close>

theorem MAT1_write_file_defaults_blank:
  assumes "i < length (MAT1_rows t)"
    and "MAT1_rows t ! i = (mid, e, g, nu, 0, 0, 0, 0, 0, 0, 0, 0)"
  shows "MAT1_write_file gd t ! i =
     [FStr ''MAT1'', FInt mid, FFloat e, set_blank_if_default g (gd e g nu), FFloat nu,
      FBlank, FBlank, FBlank, FBlank]"
  using assms by (simp add: MAT1_write_file_def MAT1_list_fields_defaults)

theorem MAT1_write_file_defaults_blank_witness:
  "0 < length (MAT1_rows mat1_example) \<and>
   MAT1_rows mat1_example ! 0 = (7, 10, 5, 1 / 4, 0, 0, 0, 0, 0, 0, 0, 0) \<and>
   MAT1_write_file (\<lambda>e g nu. if g = 0 \<or> nu = 0 then g else e / 2 / (1 + nu)) mat1_example ! 0 =
     [FStr ''MAT1'', FInt 7, FFloat 10, FFloat 5, FFloat (1 / 4), FBlank, FBlank, FBlank, FBlank]"
proof -
  have l: "0 < length (MAT1_rows mat1_example)"
    by (simp add: MAT1_rows_def mat1_example_def)
  have r: "MAT1_rows mat1_example ! 0 = (7, 10, 5, 1 / 4, 0, 0, 0, 0, 0, 0, 0, 0)"
    by (simp add: MAT1_rows_def mat1_example_def)
  from MAT1_write_file_defaults_blank
    [OF l r, of "\<lambda>e g nu. if g = 0 \<or> nu = 0 then g else e / 2 / (1 + nu)"] l r
  show ?thesis
    by (simp add: set_blank_if_default_def)
qed

subsection \<open>Several batches\<close>

text \<open>
  C4. The claim: \<^verbatim>\<open>parse_cards\<close> may run several times on a MAT1, ADD or CONM2 table, each
  later batch being appended to every column. \<^verbatim>\<open>CONM2._save\<close> refuses a second batch by an
  explicit guard (the counterexample below). What the code does by design: a batch saved into
  an empty table is stored as given; a batch saved into a MAT1 table that holds rows is
  appended to the end of the eleven value columns, and one saved into an ADD table that holds
  rows is appended to the end of the flat member array and of the count array, all in batch
  order; a CONM2 table that holds rows raises \<^verbatim>\<open>RuntimeError\<close>. (The id columns of MAT1 and
  ADD on a later batch are the subject of the two lemmas after the theorem.)
\<close>

theorem save_later_batches:
  "(mat1_material_id t \<noteq> [] \<longrightarrow>
      mat1_E (MAT1_save t material_id E G nu rho alpha tref ge Ss St Sc mcsid) = mat1_E t @ E \<and>
      mat1_G (MAT1_save t material_id E G nu rho alpha tref ge Ss St Sc mcsid) = mat1_G t @ G \<and>
      mat1_nu (MAT1_save t material_id E G nu rho alpha tref ge Ss St Sc mcsid) = mat1_nu t @ nu \<and>
      mat1_rho (MAT1_save t material_id E G nu rho alpha tref ge Ss St Sc mcsid) = mat1_rho t @ rho \<and>
      mat1_alpha (MAT1_save t material_id E G nu rho alpha tref ge Ss St Sc mcsid) =
        mat1_alpha t @ alpha \<and>
      mat1_tref (MAT1_save t material_id E G nu rho alpha tref ge Ss St Sc mcsid) =
        mat1_tref t @ tref \<and>
      mat1_ge (MAT1_save t material_id E G nu rho alpha tref ge Ss St Sc mcsid) = mat1_ge t @ ge \<and>
      mat1_Ss (MAT1_save t material_id E G nu rho alpha tref ge Ss St Sc mcsid) = mat1_Ss t @ Ss \<and>
      mat1_St (MAT1_save t material_id E G nu rho alpha tref ge Ss St Sc mcsid) = mat1_St t @ St \<and>
      mat1_Sc (MAT1_save t material_id E G nu rho alpha tref ge Ss St Sc mcsid) = mat1_Sc t @ Sc \<and>
      mat1_mcsid (MAT1_save t material_id E G nu rho alpha tref ge Ss St Sc mcsid) =
        mat1_mcsid t @ mcsid) \<and>
   (mat1_material_id t0 = [] \<longrightarrow>
      MAT1_save t0 material_id E G nu rho alpha tref ge Ss St Sc mcsid =
        t0\<lparr>mat1_material_id := material_id, mat1_E := E, mat1_G := G, mat1_nu := nu,
           mat1_rho := rho, mat1_alpha := alpha, mat1_tref := tref, mat1_ge := ge,
           mat1_Ss := Ss, mat1_St := St, mat1_Sc := Sc, mat1_mcsid := mcsid\<rparr>) \<and>
   (add_sid a \<noteq> [] \<and> ADD_save a sid sids nsids = Inr a' \<longrightarrow>
      add_sids a' = add_sids a @ sids \<and> add_nsids a' = add_nsids a @ nsids) \<and>
   (add_sid a0 = [] \<and> ADD_save a0 sid sids nsids = Inr a0' \<longrightarrow>
      add_sid a0' = sid \<and> add_sids a0' = sids \<and> add_nsids a0' = nsids \<and>
      add_n a0' = length sid) \<and>
   (conm2_element_id c \<noteq> [] \<longrightarrow>
      CONM2_save c element_id mass coord_id node_id xyz_offset inertia = Inl RuntimeError) \<and>
   (conm2_element_id c0 = [] \<longrightarrow>
      CONM2_save c0 element_id mass coord_id node_id xyz_offset inertia =
        Inr (c0\<lparr>conm2_element_id := element_id, conm2_mass := mass, conm2_coord_id := coord_id,
                conm2_node_id := node_id, conm2_xyz_offset := xyz_offset,
                conm2_inertia := inertia\<rparr>))"
proof (intro conjI impI)
  assume "add_sid a \<noteq> [] \<and> ADD_save a sid sids nsids = Inr a'"
  then have "a' = a\<lparr>add_sid := add_sid a @ sids, add_sids := add_sids a @ sids,
      add_nsids := add_nsids a @ nsids, add_n := length (add_sid a @ sids)\<rparr>"
    by (auto simp: ADD_save_def Let_def split: if_splits)
  then show "add_sids a' = add_sids a @ sids" and "add_nsids a' = add_nsids a @ nsids"
    by simp_all
next
  assume "add_sid a0 = [] \<and> ADD_save a0 sid sids nsids = Inr a0'"
  then have "a0' = a0\<lparr>add_sid := sid, add_sids := sids, add_nsids := nsids,
      add_n := length sid\<rparr>"
    by (auto simp: ADD_save_def Let_def split: if_splits)
  then show "add_sid a0' = sid" and "add_sids a0' = sids" and "add_nsids a0' = nsids"
    and "add_n a0' = length sid"
    by simp_all
qed (simp_all add: MAT1_save_def CONM2_save_def Let_def)

theorem save_later_batches_witness:
  "mat1_material_id mat1_example \<noteq> [] \<and>
   mat1_E (MAT1_save mat1_example [8] [20] [8] [1 / 4] [1] [2] [3] [4] [5] [6] [7] [9]) = [10, 20] \<and>
   mat1_mcsid (MAT1_save mat1_example [8] [20] [8] [1 / 4] [1] [2] [3] [4] [5] [6] [7] [9]) = [0, 9] \<and>
   mat1_material_id MAT1_init = [] \<and>
   mat1_material_id (MAT1_save MAT1_init [8] [20] [8] [1 / 4] [1] [2] [3] [4] [5] [6] [7] [9]) = [8] \<and>
   add_sid add_parsed_example \<noteq> [] \<and>
   ADD_save add_parsed_example [5] [4, 6] [2] =
     Inr \<lparr>add_n = 3, add_cards = [], add_sid = [2, 4, 6], add_sids = [1, 3, 4, 6],
          add_nsids = [2, 2]\<rparr> \<and>
   add_sid ADD_init = [] \<and>
   ADD_save ADD_init [5] [4, 6] [2] =
     Inr \<lparr>add_n = 1, add_cards = [], add_sid = [5], add_sids = [4, 6], add_nsids = [2]\<rparr> \<and>
   conm2_element_id conm2_example \<noteq> [] \<and>
   CONM2_save conm2_example [2] [6] [0] [11] [[0, 0, 0]] [[0, 0, 0, 0, 0, 0]] = Inl RuntimeError \<and>
   conm2_element_id CONM2_init = [] \<and>
   CONM2_save CONM2_init [2] [6] [0] [11] [[0, 0, 0]] [[0, 0, 0, 0, 0, 0]] =
     Inr \<lparr>conm2_n = 0, conm2_element_id = [2], conm2_mass = [6], conm2_coord_id = [0],
          conm2_node_id = [11], conm2_xyz_offset = [[0, 0, 0]],
          conm2_inertia = [[0, 0, 0, 0, 0, 0]]\<rparr>"
proof -
  have m: "mat1_material_id mat1_example \<noteq> []"
    by (simp add: mat1_example_def)
  have m0: "mat1_material_id MAT1_init = []"
    by (simp add: MAT1_init_def)
  have a: "add_sid add_parsed_example \<noteq> []"
    by (simp add: add_parsed_example_def)
  have a': "ADD_save add_parsed_example [5] [4, 6] [2] =
     Inr \<lparr>add_n = 3, add_cards = [], add_sid = [2, 4, 6], add_sids = [1, 3, 4, 6],
          add_nsids = [2, 2]\<rparr>"
    by (simp add: ADD_save_def add_parsed_example_def)
  have a0: "add_sid ADD_init = []"
    by (simp add: ADD_init_def)
  have a0': "ADD_save ADD_init [5] [4, 6] [2] =
     Inr \<lparr>add_n = 1, add_cards = [], add_sid = [5], add_sids = [4, 6], add_nsids = [2]\<rparr>"
    by (simp add: ADD_save_def ADD_init_def)
  have c: "conm2_element_id conm2_example \<noteq> []"
    by (simp add: conm2_example_def)
  have c0: "conm2_element_id CONM2_init = []"
    by (simp add: CONM2_init_def)
  from save_later_batches
    [where t = mat1_example and t0 = MAT1_init and material_id = "[8]" and E = "[20]"
       and G = "[8]" and nu = "[1 / 4]" and rho = "[1]" and alpha = "[2]" and tref = "[3]"
       and ge = "[4]" and Ss = "[5]" and St = "[6]" and Sc = "[7]" and mcsid = "[9]"
       and a = add_parsed_example and sid = "[5]" and sids = "[4, 6]" and nsids = "[2]"
       and a' = "\<lparr>add_n = 3, add_cards = [], add_sid = [2, 4, 6], add_sids = [1, 3, 4, 6],
          add_nsids = [2, 2]\<rparr>"
       and a0 = ADD_init
       and a0' = "\<lparr>add_n = 1, add_cards = [], add_sid = [5], add_sids = [4, 6],
          add_nsids = [2]\<rparr>"
       and c = conm2_example and c0 = CONM2_init and element_id = "[2]" and mass = "[6]"
       and coord_id = "[0]" and node_id = "[11]" and xyz_offset = "[[0, 0, 0]]"
       and inertia = "[[0, 0, 0, 0, 0, 0]]"]
    m m0 a a' a0 a0' c c0
  show ?thesis
    by (simp add: mat1_example_def MAT1_init_def CONM2_init_def)
qed

text \<open>The claim of C4 as stated fails on CONM2: a second batch saved into a CONM2 table that
  holds a row is not appended, the call raises.\<close>

theorem CONM2_save_second_batch_counterexample:
  "conm2_element_id conm2_example = [1] \<and>
   CONM2_save conm2_example [2] [6] [0] [11] [[0, 0, 0]] [[0, 0, 0, 0, 0, 0]] = Inl RuntimeError"
  by (simp add: CONM2_save_def conm2_example_def)

text \<open>The id columns on a later batch: \<^verbatim>\<open>MAT1._save\<close> stacks the old ids twice, and
  \<^verbatim>\<open>ADD._save\<close> stacks the new member ids under the old set ids, so that \<^verbatim>\<open>n\<close> counts
  members.\<close>

lemma MAT1_save_later_batch_material_id:
  "mat1_material_id t \<noteq> [] \<Longrightarrow>
   mat1_material_id (MAT1_save t material_id E G nu rho alpha tref ge Ss St Sc mcsid) =
     mat1_material_id t @ mat1_material_id t @ material_id"
  by (simp add: MAT1_save_def Let_def)

lemma ADD_save_later_batch_sid:
  "add_sid a \<noteq> [] \<Longrightarrow> ADD_save a sid sids nsids = Inr a' \<Longrightarrow>
   add_sid a' = add_sid a @ sids \<and> add_n a' = length (add_sid a) + length sids"
  by (auto simp: ADD_save_def Let_def split: if_splits)

end
